theory Spec2Isabelle
  imports Complex_Main "HOL-Library.Word"
begin

section \<open>Floating-point values\<close>

text \<open>
  The transfer works on \<^verbatim>\<open>CV_32FC3\<close> matrices and \<^verbatim>\<open>double\<close> statistics. A
  floating-point value is modelled as a finite real or one of the three IEEE 754 special
  values. Operations on finite values are exact (rounding and overflow of finite results
  are abstracted); operations involving a special value, and division by zero, follow
  IEEE 754. The two zeros are not distinguished: the only divisor of the program is a
  standard deviation, a square root, which is never the negative zero.
\<close>

datatype fl = Fin real | PInf | NInf | NaN

fun fl_add :: "fl \<Rightarrow> fl \<Rightarrow> fl" where
  "fl_add NaN _ = NaN"
| "fl_add _ NaN = NaN"
| "fl_add PInf NInf = NaN"
| "fl_add NInf PInf = NaN"
| "fl_add PInf _ = PInf"
| "fl_add _ PInf = PInf"
| "fl_add NInf _ = NInf"
| "fl_add _ NInf = NInf"
| "fl_add (Fin a) (Fin b) = Fin (a + b)"

fun fl_neg :: "fl \<Rightarrow> fl" where
  "fl_neg (Fin a) = Fin (- a)"
| "fl_neg PInf = NInf"
| "fl_neg NInf = PInf"
| "fl_neg NaN = NaN"

definition fl_sub :: "fl \<Rightarrow> fl \<Rightarrow> fl" where
  "fl_sub x y = fl_add x (fl_neg y)"

text \<open>The sign of a value, for products and quotients with an infinity.\<close>

fun fl_inf :: "bool \<Rightarrow> fl" where
  "fl_inf True = PInf"
| "fl_inf False = NInf"

fun fl_mul :: "fl \<Rightarrow> fl \<Rightarrow> fl" where
  "fl_mul NaN _ = NaN"
| "fl_mul _ NaN = NaN"
| "fl_mul (Fin a) (Fin b) = Fin (a * b)"
| "fl_mul (Fin a) PInf = (if a = 0 then NaN else fl_inf (0 < a))"
| "fl_mul (Fin a) NInf = (if a = 0 then NaN else fl_inf (a < 0))"
| "fl_mul PInf (Fin b) = (if b = 0 then NaN else fl_inf (0 < b))"
| "fl_mul NInf (Fin b) = (if b = 0 then NaN else fl_inf (b < 0))"
| "fl_mul PInf PInf = PInf"
| "fl_mul NInf NInf = PInf"
| "fl_mul PInf NInf = NInf"
| "fl_mul NInf PInf = NInf"

fun fl_div :: "fl \<Rightarrow> fl \<Rightarrow> fl" where
  "fl_div NaN _ = NaN"
| "fl_div _ NaN = NaN"
| "fl_div (Fin a) (Fin b) =
     (if b = 0 then (if a = 0 then NaN else fl_inf (0 < a)) else Fin (a / b))"
| "fl_div (Fin a) PInf = Fin 0"
| "fl_div (Fin a) NInf = Fin 0"
| "fl_div PInf (Fin b) = fl_inf (0 \<le> b)"
| "fl_div NInf (Fin b) = fl_inf (b < 0)"
| "fl_div PInf PInf = NaN"
| "fl_div PInf NInf = NaN"
| "fl_div NInf PInf = NaN"
| "fl_div NInf NInf = NaN"

fun fl_sqrt :: "fl \<Rightarrow> fl" where
  "fl_sqrt (Fin a) = (if a < 0 then NaN else Fin (sqrt a))"
| "fl_sqrt PInf = PInf"
| "fl_sqrt NInf = NaN"
| "fl_sqrt NaN = NaN"

fun finite_fl :: "fl \<Rightarrow> bool" where
  "finite_fl (Fin a) = True"
| "finite_fl _ = False"

section \<open>Matrices\<close>

text \<open>
  A \<^verbatim>\<open>Mat\<close> of integral samples, as \<^verbatim>\<open>imread\<close> and \<^verbatim>\<open>cvtColor\<close>
  produce it: its size, its sample depth, its number of channels and one list of samples
  per pixel. \<^verbatim>\<open>Mat::empty()\<close> holds of a matrix without pixels.
\<close>

datatype depth = CV_8U | CV_16U

record mat =
  rows :: int
  cols :: int
  depth :: depth
  channels :: nat
  pixels :: "nat list list"

definition empty_mat :: mat where
  "empty_mat = \<lparr>rows = 0, cols = 0, depth = CV_8U, channels = 1, pixels = []\<rparr>"

definition empty :: "mat \<Rightarrow> bool" where
  "empty m = (pixels m = [])"

text \<open>
  The three-channel working matrices (\<^verbatim>\<open>CV_32FC3\<close>, \<^verbatim>\<open>CV_8UC3\<close>) hold one
  triple per pixel; \<open>chan c\<close> reads channel \<open>c\<close> of a pixel.
\<close>

type_synonym 'a px3 = "'a \<times> 'a \<times> 'a"

fun chan :: "nat \<Rightarrow> 'a px3 \<Rightarrow> 'a" where
  "chan c (x, y, z) = (if c = 0 then x else if c = 1 then y else z)"

section \<open>The OpenCV functions the program calls\<close>

text \<open>
  The conversion codes of the program, and the library functions whose results the
  program does not determine, taken as parameters: the colour conversion of one pixel
  (\<^verbatim>\<open>cvtColor\<close> works pixel by pixel for these codes and yields three channels),
  \<^verbatim>\<open>cv::log\<close> and \<^verbatim>\<open>cv::exp\<close> on one sample, and the conversion to
  \<^verbatim>\<open>uchar\<close> of the samples for which OpenCV does not document it.
  The library calls of \<^verbatim>\<open>colorTransfer\<close> are taken to return; the one exception they
  can throw, in \<^verbatim>\<open>cvtColor\<close> on an image it does not accept, is part of \<^verbatim>\<open>main\<close>
  below.
\<close>

datatype conversion =
  CV_BGR2Lab | CV_Lab2BGR | CV_BGR2RGB | CV_RGB2BGR
| CV_BGR2HSV | CV_HSV2BGR | CV_BGR2XYZ | CV_XYZ2BGR

record cvlib =
  cvtPixel :: "conversion \<Rightarrow> depth \<Rightarrow> nat list \<Rightarrow> nat px3"
  cvLog :: "fl \<Rightarrow> fl"
  cvExp :: "fl \<Rightarrow> fl"
  uchar_unspecified :: "fl \<Rightarrow> 8 word"

text \<open>
  The images \<^verbatim>\<open>cvtColor\<close> accepts, as OpenCV documents them for these codes: three
  or four channels, and 8-bit samples; 16-bit samples are supported by the conversions
  between BGR, RGB and XYZ and not by those to and from Lab and HSV. On any other image
  \<^verbatim>\<open>cvtColor\<close> throws.
\<close>

definition cvtColor_accepts :: "conversion \<Rightarrow> mat \<Rightarrow> bool" where
  "cvtColor_accepts code m =
     ((channels m = 3 \<or> channels m = 4) \<and>
      (depth m = CV_16U \<longrightarrow> code \<in> {CV_BGR2RGB, CV_RGB2BGR, CV_BGR2XYZ, CV_XYZ2BGR}))"

text \<open>
  The conversion of one floating-point sample to \<^verbatim>\<open>uchar\<close> that
  \<^verbatim>\<open>convertTo(_, CV_8UC3)\<close> does, \<^verbatim>\<open>saturate_cast<uchar>\<close>: the sample is rounded
  to the nearest integer by \<^verbatim>\<open>cvRound\<close> (ties to even) and the integer is clipped to
  0..255. OpenCV documents this for the samples whose rounding is an \<^verbatim>\<open>int\<close>; for
  the others, NaN and the infinities among them, the result is the library's.
\<close>

definition cvRound :: "real \<Rightarrow> int" where
  "cvRound a =
     (if a - of_int \<lfloor>a\<rfloor> < 1 / 2 then \<lfloor>a\<rfloor>
      else if 1 / 2 < a - of_int \<lfloor>a\<rfloor> then \<lfloor>a\<rfloor> + 1
      else if even \<lfloor>a\<rfloor> then \<lfloor>a\<rfloor> else \<lfloor>a\<rfloor> + 1)"

definition fits_int :: "int \<Rightarrow> bool" where
  "fits_int n = (- (2 ^ 31) \<le> n \<and> n < 2 ^ 31)"

fun saturate_cast_uchar :: "cvlib \<Rightarrow> fl \<Rightarrow> 8 word" where
  "saturate_cast_uchar lib (Fin a) =
     (if fits_int (cvRound a)
      then (if cvRound a < 0 then 0 else if 255 < cvRound a then 255
            else word_of_int (cvRound a))
      else uchar_unspecified lib (Fin a))"
| "saturate_cast_uchar lib PInf = uchar_unspecified lib PInf"
| "saturate_cast_uchar lib NInf = uchar_unspecified lib NInf"
| "saturate_cast_uchar lib NaN = uchar_unspecified lib NaN"

text \<open>\<^verbatim>\<open>meanStdDev\<close>, as OpenCV documents it: per channel, the mean of the samples
  and the square root of the mean squared deviation from it, over all pixels.\<close>

definition fl_sum :: "fl list \<Rightarrow> fl" where
  "fl_sum xs = foldl fl_add (Fin 0) xs"

definition fl_mean :: "fl list \<Rightarrow> fl" where
  "fl_mean xs = fl_div (fl_sum xs) (Fin (real (length xs)))"

definition fl_stddev :: "fl list \<Rightarrow> fl" where
  "fl_stddev xs =
     fl_sqrt (fl_div (fl_sum (map (\<lambda>x. fl_mul (fl_sub x (fl_mean xs)) (fl_sub x (fl_mean xs))) xs))
                     (Fin (real (length xs))))"

definition meanStdDev :: "fl px3 list \<Rightarrow> fl list \<times> fl list" where
  "meanStdDev m =
     (map (\<lambda>c. fl_mean (map (chan c) m)) [0, 1, 2],
      map (\<lambda>c. fl_stddev (map (chan c) m)) [0, 1, 2])"

text \<open>\<^verbatim>\<open>split\<close> and \<^verbatim>\<open>merge\<close> of a three-channel matrix.\<close>

definition split :: "'a px3 list \<Rightarrow> 'a list list" where
  "split m = [map (chan 0) m, map (chan 1) m, map (chan 2) m]"

definition merge :: "'a list list \<Rightarrow> 'a px3 list" where
  "merge ps = zip (ps ! 0) (zip (ps ! 1) (ps ! 2))"

section \<open>Global data\<close>

datatype mode = NONE | LAB | RGB | HSV | XYZ

text \<open>The HighGUI calls of the program, recorded in the order they are made.\<close>

datatype window_flag = WINDOW_NORMAL | WINDOW_AUTOSIZE

datatype gui_call =
  NamedWindow string window_flag
| DestroyWindow string
| MoveWindow string int int
| ResizeWindow string int int
| CreateTrackbar string string nat int
| Imshow string mat
| ImshowText string "string list"
| DestroyAllWindows
| Imwrite string mat

definition srcWin :: string where "srcWin = ''Source Image''"
definition dstWin :: string where "dstWin = ''Original Target''"
definition targWin :: string where "targWin = ''Modified Target''"
definition controls :: string where "controls = ''Transfer Ratio''"
definition readme :: string where "readme = ''Instructions''"

text \<open>
  The globals \<^verbatim>\<open>images\<close>, \<^verbatim>\<open>trackbars\<close> and \<^verbatim>\<open>currentMode\<close>. The two
  arrays of three elements are functions of the index.
\<close>

record state =
  source :: mat
  dest :: mat
  transfer :: mat
  componentNames :: "nat \<Rightarrow> string"
  componentVals :: "nat \<Rightarrow> int"
  currentMode :: mode
  gui :: "gui_call list"

definition init_state :: state where
  "init_state =
     \<lparr>source = empty_mat, dest = empty_mat, transfer = empty_mat,
      componentNames = (\<lambda>_. []), componentVals = (\<lambda>_. 0),
      currentMode = NONE, gui = []\<rparr>"

definition call :: "gui_call \<Rightarrow> state \<Rightarrow> state" where
  "call g s = s\<lparr>gui := gui s @ [g]\<rparr>"

section \<open>The colour transfer\<close>

text \<open>The \<^verbatim>\<open>switch\<close> on \<^verbatim>\<open>currentMode\<close>: the forward and the backward
  conversion code.\<close>

fun conversions :: "mode \<Rightarrow> conversion \<times> conversion" where
  "conversions LAB = (CV_BGR2Lab, CV_Lab2BGR)"
| "conversions RGB = (CV_BGR2RGB, CV_RGB2BGR)"
| "conversions HSV = (CV_BGR2HSV, CV_HSV2BGR)"
| "conversions XYZ = (CV_BGR2XYZ, CV_XYZ2BGR)"
| "conversions NONE = (CV_BGR2Lab, CV_Lab2BGR)"

definition forwardConversion :: "mode \<Rightarrow> conversion" where
  "forwardConversion m = fst (conversions m)"

definition backwardConversion :: "mode \<Rightarrow> conversion" where
  "backwardConversion m = snd (conversions m)"

definition cvtColor :: "cvlib \<Rightarrow> conversion \<Rightarrow> mat \<Rightarrow> nat px3 list" where
  "cvtColor lib code m = map (cvtPixel lib code (depth m)) (pixels m)"

fun map_px3 :: "('a \<Rightarrow> 'b) \<Rightarrow> 'a px3 \<Rightarrow> 'b px3" where
  "map_px3 f (x, y, z) = (f x, f y, f z)"

definition convertTo_32FC3 :: "nat px3 list \<Rightarrow> fl px3 list" where
  "convertTo_32FC3 m = map (map_px3 (\<lambda>v. Fin (real v))) m"

definition convertTo_8UC3 :: "cvlib \<Rightarrow> fl px3 list \<Rightarrow> 8 word px3 list" where
  "convertTo_8UC3 lib m = map (map_px3 (saturate_cast_uchar lib)) m"

text \<open>Lines 70 to 80, for one of the two images: conversion to the working colour
  space, to floating point, and to log space.\<close>

definition floatSpace :: "cvlib \<Rightarrow> conversion \<Rightarrow> mat \<Rightarrow> fl px3 list" where
  "floatSpace lib code m = convertTo_32FC3 (cvtColor lib code m)"

definition logSpace :: "cvlib \<Rightarrow> conversion \<Rightarrow> mat \<Rightarrow> fl px3 list" where
  "logSpace lib code m = map (map_px3 (cvLog lib)) (floatSpace lib code m)"

text \<open>The rate of a component, read from its trackbar value.\<close>

definition rate :: "(nat \<Rightarrow> int) \<Rightarrow> nat \<Rightarrow> real" where
  "rate vals component = real_of_int (vals component) / 100"

text \<open>The body of the loop over the components: the statistical transfer of one
  plane, then its blend with the original plane.\<close>

definition modified :: "fl \<Rightarrow> fl \<Rightarrow> fl \<Rightarrow> fl \<Rightarrow> fl \<Rightarrow> fl" where
  "modified srcAvg srcDev dstAvg dstDev x =
     fl_add (fl_mul (fl_div srcDev dstDev) (fl_sub x dstAvg)) srcAvg"

definition blend :: "real \<Rightarrow> fl \<Rightarrow> fl \<Rightarrow> fl" where
  "blend r x m = fl_add (fl_mul x (Fin (1 - r))) (fl_mul m (Fin r))"

definition transferComponent ::
  "(nat \<Rightarrow> int) \<Rightarrow> fl list \<Rightarrow> fl list \<Rightarrow> fl list \<Rightarrow> fl list \<Rightarrow> nat \<Rightarrow> fl list list \<Rightarrow> fl list list"
where
  "transferComponent vals srcAvgs srcDevs dstAvgs dstDevs component dstComponents =
     (let r = rate vals component;
          modifiedComponent =
            map (modified (srcAvgs ! component) (srcDevs ! component)
                          (dstAvgs ! component) (dstDevs ! component))
                (dstComponents ! component)
      in dstComponents
           [component := map2 (blend r) (dstComponents ! component) modifiedComponent])"

function transferLoop ::
  "(nat \<Rightarrow> int) \<Rightarrow> fl list \<Rightarrow> fl list \<Rightarrow> fl list \<Rightarrow> fl list \<Rightarrow> nat \<Rightarrow> fl list list \<Rightarrow> fl list list"
where
  "transferLoop vals srcAvgs srcDevs dstAvgs dstDevs component dstComponents =
     (if component < 3
      then transferLoop vals srcAvgs srcDevs dstAvgs dstDevs (component + 1)
             (transferComponent vals srcAvgs srcDevs dstAvgs dstDevs component dstComponents)
      else dstComponents)"
  by pat_completeness auto
termination
  by (relation "measure (\<lambda>(vals, srcAvgs, srcDevs, dstAvgs, dstDevs, component, dstComponents).
        3 - component)") auto

text \<open>Lines 70 to 85: the two images in log space and their statistics.\<close>

definition subspaceSrc :: "cvlib \<Rightarrow> state \<Rightarrow> fl px3 list" where
  "subspaceSrc lib s = logSpace lib (forwardConversion (currentMode s)) (source s)"

definition subspaceDst :: "cvlib \<Rightarrow> state \<Rightarrow> fl px3 list" where
  "subspaceDst lib s = logSpace lib (forwardConversion (currentMode s)) (dest s)"

definition srcAvgs :: "cvlib \<Rightarrow> state \<Rightarrow> fl list" where
  "srcAvgs lib s = fst (meanStdDev (subspaceSrc lib s))"

definition srcDevs :: "cvlib \<Rightarrow> state \<Rightarrow> fl list" where
  "srcDevs lib s = snd (meanStdDev (subspaceSrc lib s))"

definition dstAvgs :: "cvlib \<Rightarrow> state \<Rightarrow> fl list" where
  "dstAvgs lib s = fst (meanStdDev (subspaceDst lib s))"

definition dstDevs :: "cvlib \<Rightarrow> state \<Rightarrow> fl list" where
  "dstDevs lib s = snd (meanStdDev (subspaceDst lib s))"

text \<open>Lines 87 to 110: the merged result of the transfer, still in log space.\<close>

definition logTransfer :: "cvlib \<Rightarrow> state \<Rightarrow> fl px3 list" where
  "logTransfer lib s =
     merge (transferLoop (componentVals s) (srcAvgs lib s) (srcDevs lib s)
              (dstAvgs lib s) (dstDevs lib s) 0 (split (subspaceDst lib s)))"

text \<open>Lines 112 to 119: back to linear space, to \<^verbatim>\<open>CV_8UC3\<close>, and to BGR.\<close>

definition subspaceTransfer :: "cvlib \<Rightarrow> state \<Rightarrow> 8 word px3 list" where
  "subspaceTransfer lib s = convertTo_8UC3 lib (map (map_px3 (cvExp lib)) (logTransfer lib s))"

definition colorTransfer :: "cvlib \<Rightarrow> state \<Rightarrow> state" where
  "colorTransfer lib s =
     s\<lparr>transfer :=
         \<lparr>rows = rows (dest s), cols = cols (dest s), depth = CV_8U, channels = 3,
          pixels = map (\<lambda>(x, y, z).
                          (case cvtPixel lib (backwardConversion (currentMode s)) CV_8U
                                  [unat x, unat y, unat z]
                           of (b, g, r) \<Rightarrow> [b, g, r]))
                       (subspaceTransfer lib s)\<rparr>\<rparr>"

definition updateTransfer :: "cvlib \<Rightarrow> state \<Rightarrow> state" where
  "updateTransfer lib s =
     (let s' = colorTransfer lib s in call (Imshow targWin (transfer s')) s')"

section \<open>The keypress parser\<close>

text \<open>The loop of lines 177 to 185 over the three trackbars.\<close>

function trackbarLoop :: "nat \<Rightarrow> state \<Rightarrow> state" where
  "trackbarLoop i s =
     (if i < 3
      then trackbarLoop (i + 1)
             (call (CreateTrackbar (componentNames s i) controls i 100)
                (s\<lparr>componentVals := (componentVals s)(i := 100)\<rparr>))
      else s)"
  by pat_completeness auto
termination
  by (relation "measure (\<lambda>(i, s). 3 - i)") auto

text \<open>Lines 172 to 192, reached after a change of mode.\<close>

definition refreshTrackbars :: "cvlib \<Rightarrow> state \<Rightarrow> state" where
  "refreshTrackbars lib s =
     updateTransfer lib
       (call (ResizeWindow controls 600 125)
          (trackbarLoop 0
             (call (MoveWindow controls (cols (dest s) + 10) (rows (dest s) + 155))
                (call (NamedWindow controls WINDOW_NORMAL)
                   (call (DestroyWindow controls) s)))))"

text \<open>One case group of the \<^verbatim>\<open>switch\<close>: the early return when the mode is the
  current one, the assignment of the mode and of the three names, and, after the
  \<^verbatim>\<open>break\<close>, the refresh.\<close>

definition setMode :: "cvlib \<Rightarrow> mode \<Rightarrow> string \<Rightarrow> string \<Rightarrow> string \<Rightarrow> state \<Rightarrow> int \<times> state" where
  "setMode lib m n0 n1 n2 s =
     (if currentMode s = m then (1, s)
      else (1, refreshTrackbars lib
                 (s\<lparr>currentMode := m,
                    componentNames := (componentNames s)(0 := n0, 1 := n1, 2 := n2)\<rparr>)))"

definition changeMode :: "cvlib \<Rightarrow> char \<Rightarrow> state \<Rightarrow> int \<times> state" where
  "changeMode lib keypress s =
     (if keypress = CHR ''r'' \<or> keypress = CHR ''R''
        then setMode lib RGB ''Red'' ''Green'' ''Blue'' s
      else if keypress = CHR ''l'' \<or> keypress = CHR ''L''
        then setMode lib LAB ''Luminance'' ''Alpha'' ''Beta'' s
      else if keypress = CHR ''h'' \<or> keypress = CHR ''H''
        then setMode lib HSV ''Hue'' ''Saturation'' ''Value'' s
      else if keypress = CHR ''x'' \<or> keypress = CHR ''X''
        then setMode lib XYZ ''X'' ''Y'' ''Z'' s
      else if keypress = CHR 0x1B
        then (0, s)
      else (1, s))"

section \<open>The program\<close>

text \<open>
  What a run of \<^verbatim>\<open>main\<close> ends in: \<^verbatim>\<open>exit\<close> with a status after a message on
  \<^verbatim>\<open>stderr\<close>, a \<^verbatim>\<open>return\<close> from \<^verbatim>\<open>main\<close>, an abort on an exception that
  nothing catches, or \<^verbatim>\<open>waitKey\<close> waiting for a key that never comes.
\<close>

datatype outcome = Exit int string | Return int state | Abort | Waiting state

fun exit_status :: "outcome \<Rightarrow> int option" where
  "exit_status (Exit c msg) = Some c"
| "exit_status (Return c s) = Some c"
| "exit_status Abort = None"
| "exit_status (Waiting s) = None"

definition usage :: "string \<Rightarrow> string" where
  "usage argv0 =
     [CHR 0x0A] @ ''Usage: '' @ argv0 @ '' reference-input-file target-input-file [output-file]'' @
     [CHR 0x0A, CHR 0x0A] @
     ''Starts the color transfer GUI with the supplied reference and target.'' @ [CHR 0x0A] @
     ''If output-file is supplied, it is overwritten with the current result'' @ [CHR 0x0A] @
     ''of the transfer at the time the user quits the program.'' @ [CHR 0x0A, CHR 0x0A]"

definition textlines :: "string list" where
  "textlines =
     [''Keymap:'', [CHR 0x27] @ ''L'' @ [CHR 0x27] @ '' -> LAB, '' @ [CHR 0x27] @ ''R'' @ [CHR 0x27] @ '' -> RGB'',
      [CHR 0x27] @ ''H'' @ [CHR 0x27] @ '' -> HSV, '' @ [CHR 0x27] @ ''X'' @ [CHR 0x27] @ '' -> XYZ'',
      ''ESC -> Save and Exit'']"

text \<open>
  The loop \<^verbatim>\<open>while(changeMode(waitKey(0)));\<close> over the keys that \<^verbatim>\<open>waitKey\<close>
  returns, each an \<^verbatim>\<open>int\<close> converted to the \<^verbatim>\<open>char\<close> parameter of
  \<^verbatim>\<open>changeMode\<close>. The result is \<open>None\<close> when the keys run out before the loop ends.
\<close>

fun eventLoop :: "cvlib \<Rightarrow> state \<Rightarrow> int list \<Rightarrow> state option" where
  "eventLoop lib s [] = None"
| "eventLoop lib s (k # ks) =
     (case changeMode lib (char_of k) s of
        (r, s') \<Rightarrow> if r \<noteq> 0 then eventLoop lib s' ks else Some s')"

text \<open>
  \<^verbatim>\<open>main\<close>, given the library, what \<^verbatim>\<open>imread\<close> returns for a file name, the
  arguments (\<^verbatim>\<open>argc\<close> is their number) and the keys pressed. The first transfer,
  made in LAB mode by \<^verbatim>\<open>changeMode('l')\<close>, converts the two images with
  \<^verbatim>\<open>cvtColor\<close>, which throws on an image it does not accept; nothing catches the
  exception and the program aborts. An image the Lab conversion accepts is accepted by the
  conversion of every mode, so the library calls of all later transfers return.
\<close>

definition createWindows :: "state \<Rightarrow> state" where
  "createWindows s =
     call (ImshowText readme textlines)
       (call (Imshow dstWin (dest s))
       (call (Imshow srcWin (source s))
       (call (MoveWindow readme (cols (dest s) + 10) (rows (dest s) + 200))
       (call (MoveWindow targWin 0 (rows (dest s) + 50))
       (call (MoveWindow dstWin (cols (source s) + 10) 0)
       (call (MoveWindow srcWin 0 0)
       (call (NamedWindow readme WINDOW_AUTOSIZE)
       (call (NamedWindow controls WINDOW_NORMAL)
       (call (NamedWindow targWin WINDOW_AUTOSIZE)
       (call (NamedWindow dstWin WINDOW_AUTOSIZE)
       (call (NamedWindow srcWin WINDOW_AUTOSIZE) s)))))))))))"

definition cleanUp :: "string list \<Rightarrow> state \<Rightarrow> state" where
  "cleanUp argv s =
     (let s' = call DestroyAllWindows s
      in if length argv = 4 then call (Imwrite (argv ! 3) (transfer s')) s' else s')"

definition main :: "cvlib \<Rightarrow> (string \<Rightarrow> mat) \<Rightarrow> string list \<Rightarrow> int list \<Rightarrow> outcome" where
  "main lib imread argv keys =
     (if length argv < 3 \<or> length argv > 4
      then Exit 1 (usage (case argv of [] \<Rightarrow> ''(null)'' | argv0 # _ \<Rightarrow> argv0))
      else
        let s = init_state\<lparr>source := imread (argv ! 1), dest := imread (argv ! 2)\<rparr>
        in if empty (source s) \<or> empty (dest s)
           then Exit 1 ''Image data missing''
           else if channels (source s) < 3 \<or> channels (dest s) < 3
           then Exit 1 ''One of source/dest may not be a color image''
           else if \<not> (cvtColor_accepts CV_BGR2Lab (source s) \<and>
                        cvtColor_accepts CV_BGR2Lab (dest s))
           then Abort
           else
             (case eventLoop lib (snd (changeMode lib CHR ''l'' (createWindows s))) keys of
                None \<Rightarrow> Waiting (snd (changeMode lib CHR ''l'' (createWindows s)))
              | Some s' \<Rightarrow> Return 0 (cleanUp argv s')))"

section \<open>The trackbars\<close>









section \<open>A reference instance of the library\<close>

text \<open>
  An instance of the library functions for closed evaluation in RGB mode.
  \<^verbatim>\<open>CV_BGR2RGB\<close> and \<^verbatim>\<open>CV_RGB2BGR\<close> exchange the first and the third channel
  and drop any further channel. The colorimetry of the other codes is not modelled: this
  instance gives them the same exchange, and the closed theorems below evaluate samples
  in RGB mode only. The logarithm and the exponential are the real functions, extended as
  IEEE 754 does (OpenCV leaves \<^verbatim>\<open>cv::log\<close> at zero and below undefined). The
  conversion to \<^verbatim>\<open>uchar\<close> of the samples OpenCV says nothing about saturates too.
\<close>

definition swapRB :: "nat list \<Rightarrow> nat px3" where
  "swapRB p = (case p of b # g # r # _ \<Rightarrow> (r, g, b) | _ \<Rightarrow> (0, 0, 0))"

fun ref_log :: "fl \<Rightarrow> fl" where
  "ref_log (Fin a) = (if 0 < a then Fin (ln a) else if a = 0 then NInf else NaN)"
| "ref_log PInf = PInf"
| "ref_log NInf = NaN"
| "ref_log NaN = NaN"

fun ref_exp :: "fl \<Rightarrow> fl" where
  "ref_exp (Fin a) = Fin (exp a)"
| "ref_exp PInf = PInf"
| "ref_exp NInf = Fin 0"
| "ref_exp NaN = NaN"

fun ref_unspecified :: "fl \<Rightarrow> 8 word" where
  "ref_unspecified (Fin a) = (if a < 0 then 0 else 255)"
| "ref_unspecified PInf = 255"
| "ref_unspecified NInf = 0"
| "ref_unspecified NaN = 0"

definition ref_lib :: cvlib where
  "ref_lib = \<lparr>cvtPixel = (\<lambda>code d p. swapRB p), cvLog = ref_log, cvExp = ref_exp,
              uchar_unspecified = ref_unspecified\<rparr>"

text \<open>
  Images and states for closed evaluation: an image of BGR pixels, a pixel with three
  equal samples, and the RGB mode with the three trackbars at one value.
\<close>

definition gray :: "nat \<Rightarrow> nat list" where
  "gray v = [v, v, v]"

definition image :: "depth \<Rightarrow> int \<Rightarrow> int \<Rightarrow> nat list list \<Rightarrow> mat" where
  "image d r c ps = \<lparr>rows = r, cols = c, depth = d, channels = 3, pixels = ps\<rparr>"

definition rgb_state :: "mat \<Rightarrow> mat \<Rightarrow> int \<Rightarrow> state" where
  "rgb_state src dst v =
     init_state\<lparr>source := src, dest := dst, componentVals := (\<lambda>_. v), currentMode := RGB\<rparr>"

text \<open>The end-to-end scenario of the specification: a 2 by 2 reference whose pixels
  are all RGB (200, 100, 50) and a 2 by 2 target whose pixels are all RGB (50, 100, 200).\<close>

definition scenario :: "int \<Rightarrow> state" where
  "scenario v =
     rgb_state (image CV_8U 2 2 [[50, 100, 200], [50, 100, 200], [50, 100, 200], [50, 100, 200]])
               (image CV_8U 2 2 [[200, 100, 50], [200, 100, 50], [200, 100, 50], [200, 100, 50]]) v"

text \<open>A reference and a target of two gray pixels each.\<close>

definition two_tone :: "int \<Rightarrow> state" where
  "two_tone v =
     rgb_state (image CV_8U 1 2 [gray 2, gray 4]) (image CV_8U 1 2 [gray 1, gray 2]) v"

text \<open>A reference of two gray pixels and a target of five, four of them dark.\<close>

definition skewed :: state where
  "skewed =
     rgb_state (image CV_8U 1 2 [gray 8, gray 128])
               (image CV_8U 1 5 [gray 1, gray 1, gray 1, gray 1, gray 32]) 100"

text \<open>A target with a black pixel, and a file system whose images have 16-bit
  samples.\<close>

definition with_black :: state where
  "with_black =
     rgb_state (image CV_8U 1 2 [gray 2, gray 4]) (image CV_8U 1 2 [gray 0, gray 2]) 100"



section \<open>Finite matrices and their statistics\<close>

text \<open>The real value of a finite sample, the matrices without special values, and the
  real samples of one channel of such a matrix.\<close>

fun the_fin :: "fl \<Rightarrow> real" where
  "the_fin (Fin a) = a"
| "the_fin PInf = 0"
| "the_fin NInf = 0"
| "the_fin NaN = 0"

definition finite_mat :: "fl px3 list \<Rightarrow> bool" where
  "finite_mat m =
     list_all (\<lambda>p. finite_fl (chan 0 p) \<and> finite_fl (chan 1 p) \<and> finite_fl (chan 2 p)) m"

definition plane :: "nat \<Rightarrow> fl px3 list \<Rightarrow> real list" where
  "plane c m = map (\<lambda>p. the_fin (chan c p)) m"

text \<open>The samples on which the logarithm is defined, and the matrices of such samples.\<close>

fun positive_fl :: "fl \<Rightarrow> bool" where
  "positive_fl (Fin a) = (0 < a)"
| "positive_fl PInf = True"
| "positive_fl NInf = False"
| "positive_fl NaN = False"

definition positive_mat :: "fl px3 list \<Rightarrow> bool" where
  "positive_mat m =
     list_all (\<lambda>p. positive_fl (chan 0 p) \<and> positive_fl (chan 1 p) \<and> positive_fl (chan 2 p)) m"

text \<open>One sample of the result in log space, as the body of the loop computes it.\<close>

definition transferSample :: "cvlib \<Rightarrow> state \<Rightarrow> nat \<Rightarrow> fl \<Rightarrow> fl" where
  "transferSample lib s c x =
     blend (rate (componentVals s) c) x
       (modified (srcAvgs lib s ! c) (srcDevs lib s ! c) (dstAvgs lib s ! c) (dstDevs lib s ! c) x)"

section \<open>The words of the specification\<close>

text \<open>The channel labels the specification gives for each colour space.\<close>

fun labels_spec :: "mode \<Rightarrow> string list" where
  "labels_spec LAB = [''Luminance'', ''Alpha'', ''Beta'']"
| "labels_spec RGB = [''Red'', ''Green'', ''Blue'']"
| "labels_spec HSV = [''Hue'', ''Saturation'', ''Value'']"
| "labels_spec XYZ = [''X'', ''Y'', ''Z'']"
| "labels_spec NONE = []"

text \<open>The keys of a colour space, as the instruction window lists them.\<close>

definition keymap_spec :: "(char \<times> mode) set" where
  "keymap_spec =
     {(CHR ''l'', LAB), (CHR ''L'', LAB), (CHR ''r'', RGB), (CHR ''R'', RGB),
      (CHR ''h'', HSV), (CHR ''H'', HSV), (CHR ''x'', XYZ), (CHR ''X'', XYZ)}"

text \<open>Mean and standard deviation over all samples, and the formula of the
  specification for one sample of the log-space result.\<close>

definition mean :: "real list \<Rightarrow> real" where
  "mean xs = sum_list xs / real (length xs)"

definition stddev :: "real list \<Rightarrow> real" where
  "stddev xs = sqrt (sum_list (map (\<lambda>x. (x - mean xs)\<^sup>2) xs) / real (length xs))"


definition transfer_spec :: "real \<Rightarrow> real \<Rightarrow> real \<Rightarrow> real \<Rightarrow> real \<Rightarrow> real \<Rightarrow> real" where
  "transfer_spec ratio srcAvg srcDev dstAvg dstDev x =
     x * (1 - ratio) + ((srcDev / dstDev) * (x - dstAvg) + srcAvg) * ratio"

declare transferLoop.simps [simp del]
declare trackbarLoop.simps [simp del]

section \<open>Statistics of finite samples\<close>

lemma foldl_fl_add_Fin: "foldl fl_add (Fin a) (map Fin xs) = Fin (a + sum_list xs)"
  by (induction xs arbitrary: a) (simp_all add: add.assoc)

lemma fl_sum_Fin: "fl_sum (map Fin xs) = Fin (sum_list xs)"
  by (simp add: fl_sum_def foldl_fl_add_Fin)

lemma fl_mean_Fin: "xs \<noteq> [] \<Longrightarrow> fl_mean (map Fin xs) = Fin (mean xs)"
  by (simp add: fl_mean_def fl_sum_Fin mean_def)

lemma fl_stddev_Fin: 
  assumes "xs \<noteq> []" shows "fl_stddev (map Fin xs) = Fin (stddev xs)"
proof -
  have m: "map (\<lambda>x. fl_mul (fl_sub x (Fin (mean xs))) (fl_sub x (Fin (mean xs)))) (map Fin xs)
      = map Fin (map (\<lambda>x. (x - mean xs)\<^sup>2) xs)"
    by (simp add: fl_sub_def power2_eq_square)
  have nn: "0 \<le> sum_list (map (\<lambda>x. (x - mean xs)\<^sup>2) xs)"
    by (rule sum_list_nonneg) auto
  then have "\<not> sum_list (map (\<lambda>x. (x - mean xs)\<^sup>2) xs) / real (length xs) < 0"
    by (simp add: not_less)
  with assms show ?thesis
    unfolding fl_stddev_def stddev_def fl_mean_Fin [OF assms] m fl_sum_Fin
    by simp
qed

lemma finite_fl_iff: "finite_fl x \<longleftrightarrow> x = Fin (the_fin x)"
  by (cases x) simp_all

lemma finite_mat_plane:
  assumes "finite_mat m" "c < 3"
  shows "map (chan c) m = map Fin (plane c m)"
proof -
  have "chan c p = Fin (the_fin (chan c p))" if "p \<in> set m" for p
  proof -
    from assms(1) that have "finite_fl (chan 0 p) \<and> finite_fl (chan 1 p) \<and> finite_fl (chan 2 p)"
      by (simp add: finite_mat_def list_all_iff)
    moreover from assms(2) have "c = 0 \<or> c = 1 \<or> c = 2" by arith
    ultimately have "finite_fl (chan c p)" by auto
    then show ?thesis by (simp add: finite_fl_iff [symmetric])
  qed
  then show ?thesis by (simp add: plane_def)
qed

lemma stddev_eq_0_iff:
  assumes "xs \<noteq> []"
  shows "stddev xs = 0 \<longleftrightarrow> (\<forall>x\<in>set xs. x = mean xs)"
proof -
  have "sum_list (map (\<lambda>x. (x - mean xs)\<^sup>2) xs) = 0 \<longleftrightarrow> (\<forall>x\<in>set xs. (x - mean xs)\<^sup>2 = 0)"
    by (subst sum_list_nonneg_eq_0_iff) auto
  with assms show ?thesis by (simp add: stddev_def)
qed

lemma stddev_nonneg: "0 \<le> stddev xs"
  by (auto simp: stddev_def intro!: divide_nonneg_nonneg sum_list_nonneg)

lemma sum_list_affine:
  "sum_list (map (\<lambda>x. a * (x - u) + m) xs) =
     a * (sum_list xs - real (length xs) * u) + real (length xs) * (m::real)"
  by (induction xs) (simp_all add: algebra_simps)

lemma mean_affine:
  assumes "xs \<noteq> []"
  shows "mean (map (\<lambda>x. a * (x - mean xs) + m) xs) = m"
proof -
  from assms have "sum_list xs - real (length xs) * mean xs = 0"
    by (simp add: mean_def)
  then have "sum_list (map (\<lambda>x. a * (x - mean xs) + m) xs) = real (length xs) * m"
    by (simp add: sum_list_affine [of a "mean xs" m xs])
  with assms show ?thesis
    by (simp add: mean_def [of "map (\<lambda>x. a * (x - mean xs) + m) xs"])
qed

lemma stddev_affine:
  assumes "xs \<noteq> []"
  shows "stddev (map (\<lambda>x. a * (x - mean xs) + m) xs) = \<bar>a\<bar> * stddev xs"
proof -
  let ?ys = "map (\<lambda>x. a * (x - mean xs) + m) xs"
  have my: "mean ?ys = m" by (rule mean_affine [OF assms])
  have "map (\<lambda>y. (y - m)\<^sup>2) ?ys = map (\<lambda>x. a\<^sup>2 * (x - mean xs)\<^sup>2) xs"
    by (simp add: power_mult_distrib)
  then have "sum_list (map (\<lambda>y. (y - mean ?ys)\<^sup>2) ?ys) =
      a\<^sup>2 * sum_list (map (\<lambda>x. (x - mean xs)\<^sup>2) xs)"
    by (simp only: my sum_list_const_mult)
  then have "stddev ?ys = sqrt (a\<^sup>2 * (sum_list (map (\<lambda>x. (x - mean xs)\<^sup>2) xs) / real (length xs)))"
    by (simp add: stddev_def)
  also have "\<dots> = sqrt (a\<^sup>2) * stddev xs"
    unfolding stddev_def by (rule real_sqrt_mult)
  finally show ?thesis by simp
qed

section \<open>The loop over the components\<close>

lemma transferLoop_3:
  "transferLoop vals sa sd da dd 0 [p0, p1, p2] =
     [map (\<lambda>x. blend (rate vals 0) x (modified (sa ! 0) (sd ! 0) (da ! 0) (dd ! 0) x)) p0,
      map (\<lambda>x. blend (rate vals 1) x (modified (sa ! 1) (sd ! 1) (da ! 1) (dd ! 1) x)) p1,
      map (\<lambda>x. blend (rate vals 2) x (modified (sa ! 2) (sd ! 2) (da ! 2) (dd ! 2) x)) p2]"
proof -
  have m2: "\<And>f g xs. map2 f xs (map g xs) = map (\<lambda>x. f x (g x)) xs"
    by (simp add: zip_map2 zip_same_conv_map)
  have l3: "\<And>ps. transferLoop vals sa sd da dd 3 ps = ps"
    by (subst transferLoop.simps) simp
  have l2: "\<And>ps. transferLoop vals sa sd da dd 2 ps = transferComponent vals sa sd da dd 2 ps"
    by (subst transferLoop.simps) (simp add: l3)
  have l1: "\<And>ps. transferLoop vals sa sd da dd 1 ps =
      transferComponent vals sa sd da dd 2 (transferComponent vals sa sd da dd 1 ps)"
    by (subst transferLoop.simps) (simp add: l2 del: One_nat_def)
  have "transferLoop vals sa sd da dd 0 [p0, p1, p2] =
      transferComponent vals sa sd da dd 2
        (transferComponent vals sa sd da dd 1 (transferComponent vals sa sd da dd 0 [p0, p1, p2]))"
    by (subst transferLoop.simps) (simp add: l1 del: One_nat_def)
  then show ?thesis
    by (simp add: transferComponent_def Let_def m2)
qed

lemma merge_maps:
  "merge [map f0 (map (chan 0) m), map f1 (map (chan 1) m), map f2 (map (chan 2) m)] =
     map (\<lambda>p. (f0 (chan 0 p), f1 (chan 1 p), f2 (chan 2 p))) m"
  by (induction m) (simp_all add: merge_def)

lemma logTransfer_pixels:
  "logTransfer lib s =
     map (\<lambda>p. (transferSample lib s 0 (chan 0 p), transferSample lib s 1 (chan 1 p),
               transferSample lib s 2 (chan 2 p)))
         (subspaceDst lib s)"
  unfolding logTransfer_def split_def transferLoop_3 transferSample_def
  by (rule merge_maps)

lemma logTransfer_plane:
  assumes "c < 3"
  shows "map (chan c) (logTransfer lib s) =
         map (transferSample lib s c) (map (chan c) (subspaceDst lib s))"
proof -
  from assms have "c = 0 \<or> c = 1 \<or> c = 2" by arith
  then show ?thesis
    by (auto simp: logTransfer_pixels)
qed

lemma stats_nth:
  assumes "c < 3"
  shows "srcAvgs lib s ! c = fl_mean (map (chan c) (subspaceSrc lib s))"
    and "srcDevs lib s ! c = fl_stddev (map (chan c) (subspaceSrc lib s))"
    and "dstAvgs lib s ! c = fl_mean (map (chan c) (subspaceDst lib s))"
    and "dstDevs lib s ! c = fl_stddev (map (chan c) (subspaceDst lib s))"
proof -
  from assms have "c = 0 \<or> c = 1 \<or> c = 2" by arith
  then show "srcAvgs lib s ! c = fl_mean (map (chan c) (subspaceSrc lib s))"
    and "srcDevs lib s ! c = fl_stddev (map (chan c) (subspaceSrc lib s))"
    and "dstAvgs lib s ! c = fl_mean (map (chan c) (subspaceDst lib s))"
    and "dstDevs lib s ! c = fl_stddev (map (chan c) (subspaceDst lib s))"
    by (auto simp: srcAvgs_def srcDevs_def dstAvgs_def dstDevs_def meanStdDev_def)
qed

lemma plane_Nil_iff: "plane c m = [] \<longleftrightarrow> m = []"
  by (simp add: plane_def)

lemma finite_stats:
  assumes "finite_mat m" "m \<noteq> []" "c < 3"
  shows "fl_mean (map (chan c) m) = Fin (mean (plane c m))"
    and "fl_stddev (map (chan c) m) = Fin (stddev (plane c m))"
  using assms
  by (simp_all add: finite_mat_plane fl_mean_Fin fl_stddev_Fin plane_Nil_iff)

lemma modified_Fin:
  "d \<noteq> 0 \<Longrightarrow> modified (Fin sa) (Fin sd) (Fin da) (Fin d) (Fin x) =
     Fin ((sd / d) * (x - da) + sa)"
  by (simp add: modified_def fl_sub_def)

lemma blend_Fin: "blend r (Fin x) (Fin m) = Fin (x * (1 - r) + m * r)"
  by (simp add: blend_def)

lemma fl_add_NaN [simp]: "fl_add x NaN = NaN"
  by (cases x) simp_all

lemma fl_mul_NaN [simp]: "fl_mul x NaN = NaN"
  by (cases x) simp_all

lemma fl_mul_inf_zero [simp]: "fl_mul (fl_inf b) (Fin 0) = NaN"
  by (cases b) simp_all

lemma finite_fl_inf [simp]: "\<not> finite_fl (fl_inf b)"
  by (cases b) simp_all

lemma fl_div_zero_mul_zero: "fl_mul (fl_div x (Fin 0)) (Fin 0) = NaN"
  by (cases x) simp_all

lemma fl_div_zero_infinite: "\<not> finite_fl (fl_div x (Fin 0))"
  by (cases x) simp_all

lemma modified_flat: "modified sa sd (Fin u) (Fin 0) (Fin u) = NaN"
  by (simp add: modified_def fl_sub_def fl_div_zero_mul_zero)

lemma blend_NaN: "blend r x NaN = NaN"
  by (simp add: blend_def)

lemma transferSample_finite:
  assumes "finite_mat (subspaceSrc lib s)" and "subspaceSrc lib s \<noteq> []"
    and "finite_mat (subspaceDst lib s)" and "subspaceDst lib s \<noteq> []"
    and "c < 3" and "dstDevs lib s ! c \<noteq> Fin 0"
  shows "transferSample lib s c (Fin x) =
         Fin (transfer_spec (rate (componentVals s) c)
                (mean (plane c (subspaceSrc lib s))) (stddev (plane c (subspaceSrc lib s)))
                (mean (plane c (subspaceDst lib s))) (stddev (plane c (subspaceDst lib s))) x)"
proof -
  note st = stats_nth [OF \<open>c < 3\<close>, of lib s]
  have sa: "srcAvgs lib s ! c = Fin (mean (plane c (subspaceSrc lib s)))"
    and sd: "srcDevs lib s ! c = Fin (stddev (plane c (subspaceSrc lib s)))"
    using finite_stats [OF assms(1,2,5)] by (simp_all add: st)
  have da: "dstAvgs lib s ! c = Fin (mean (plane c (subspaceDst lib s)))"
    and dd: "dstDevs lib s ! c = Fin (stddev (plane c (subspaceDst lib s)))"
    using finite_stats [OF assms(3,4,5)] by (simp_all add: st)
  from assms(6) dd have nz: "stddev (plane c (subspaceDst lib s)) \<noteq> 0" by simp
  show ?thesis
    by (simp add: transferSample_def sa sd da dd modified_Fin [OF nz] blend_Fin transfer_spec_def)
qed

lemma transfer_spec_0: "transfer_spec 0 sa sd da dd x = x"
  by (simp add: transfer_spec_def)

lemma transfer_spec_1: "transfer_spec 1 sa sd da dd x = (sd / dd) * (x - da) + sa"
  by (simp add: transfer_spec_def)

lemma px3_eqI: "chan 0 p = chan 0 q \<Longrightarrow> chan 1 p = chan 1 q \<Longrightarrow> chan 2 p = chan 2 q \<Longrightarrow> p = q"
  by (cases p, cases q) simp

lemma finite_mat_chan:
  assumes "finite_mat m" "p \<in> set m" "c < 3"
  shows "chan c p = Fin (the_fin (chan c p))"
proof -
  from assms(1,2) have "finite_fl (chan 0 p) \<and> finite_fl (chan 1 p) \<and> finite_fl (chan 2 p)"
    by (simp add: finite_mat_def list_all_iff)
  moreover from assms(3) have "c = 0 \<or> c = 1 \<or> c = 2" by arith
  ultimately have "finite_fl (chan c p)" by auto
  then show ?thesis by (simp add: finite_fl_iff [symmetric])
qed

lemma flat_plane:
  assumes "finite_mat m" "m \<noteq> []" "c < 3" "fl_stddev (map (chan c) m) = Fin 0"
  shows "map (chan c) m = replicate (length m) (Fin (mean (plane c m)))"
proof -
  from assms have "stddev (plane c m) = 0"
    by (simp add: finite_stats)
  with assms(2) have eq: "\<forall>x\<in>set (plane c m). x = mean (plane c m)"
    by (simp add: stddev_eq_0_iff plane_Nil_iff)
  have "map (chan c) m = map Fin (plane c m)"
    by (rule finite_mat_plane [OF assms(1,3)])
  also have "\<dots> = map (\<lambda>x. Fin (mean (plane c m))) (plane c m)"
    using eq by simp
  also have "\<dots> = replicate (length m) (Fin (mean (plane c m)))"
    by (simp add: map_replicate_const plane_def)
  finally show ?thesis .
qed

lemma flat_plane_result:
  assumes "finite_mat (subspaceDst lib s)" and "subspaceDst lib s \<noteq> []"
    and "c < 3" and "dstDevs lib s ! c = Fin 0"
  shows "map (chan c) (logTransfer lib s) = replicate (length (subspaceDst lib s)) NaN"
proof -
  let ?u = "mean (plane c (subspaceDst lib s))"
  from assms(4) have dev: "fl_stddev (map (chan c) (subspaceDst lib s)) = Fin 0"
    by (simp add: stats_nth [OF assms(3)])
  have avg: "dstAvgs lib s ! c = Fin ?u"
    by (simp add: stats_nth [OF assms(3)] finite_stats [OF assms(1,2,3)])
  have step: "map (chan c) (logTransfer lib s) =
      map (transferSample lib s c) (replicate (length (subspaceDst lib s)) (Fin ?u))"
    by (simp only: logTransfer_plane [OF assms(3)] flat_plane [OF assms(1,2,3) dev])
  have "transferSample lib s c (Fin ?u) = NaN"
    by (simp add: transferSample_def avg assms(4) modified_flat blend_NaN)
  with step show ?thesis by simp
qed

lemma logTransfer_plane_finite:
  assumes "finite_mat (subspaceSrc lib s)" and "subspaceSrc lib s \<noteq> []"
    and "finite_mat (subspaceDst lib s)" and "subspaceDst lib s \<noteq> []"
    and "c < 3" and "dstDevs lib s ! c \<noteq> Fin 0"
  shows "srcAvgs lib s ! c = Fin (mean (plane c (subspaceSrc lib s))) \<and>
         srcDevs lib s ! c = Fin (stddev (plane c (subspaceSrc lib s))) \<and>
         dstAvgs lib s ! c = Fin (mean (plane c (subspaceDst lib s))) \<and>
         dstDevs lib s ! c = Fin (stddev (plane c (subspaceDst lib s))) \<and>
         map (chan c) (logTransfer lib s) =
           map (\<lambda>x. Fin (transfer_spec (rate (componentVals s) c)
                          (mean (plane c (subspaceSrc lib s))) (stddev (plane c (subspaceSrc lib s)))
                          (mean (plane c (subspaceDst lib s))) (stddev (plane c (subspaceDst lib s)))
                          x))
               (plane c (subspaceDst lib s))"
proof -
  note st = stats_nth [OF \<open>c < 3\<close>, of lib s]
  have sa: "srcAvgs lib s ! c = Fin (mean (plane c (subspaceSrc lib s)))"
    and sd: "srcDevs lib s ! c = Fin (stddev (plane c (subspaceSrc lib s)))"
    using finite_stats [OF assms(1,2,5)] by (simp_all add: st)
  have da: "dstAvgs lib s ! c = Fin (mean (plane c (subspaceDst lib s)))"
    and dd: "dstDevs lib s ! c = Fin (stddev (plane c (subspaceDst lib s)))"
    using finite_stats [OF assms(3,4,5)] by (simp_all add: st)
  from assms(6) dd have nz: "stddev (plane c (subspaceDst lib s)) \<noteq> 0" by simp
  have "map (chan c) (logTransfer lib s) =
      map (transferSample lib s c) (map Fin (plane c (subspaceDst lib s)))"
    by (simp only: logTransfer_plane [OF assms(5)] finite_mat_plane [OF assms(3,5)])
  also have "\<dots> = map (\<lambda>x. Fin (transfer_spec (rate (componentVals s) c)
                          (mean (plane c (subspaceSrc lib s))) (stddev (plane c (subspaceSrc lib s)))
                          (mean (plane c (subspaceDst lib s))) (stddev (plane c (subspaceDst lib s)))
                          x))
               (plane c (subspaceDst lib s))"
    by (simp add: transferSample_def sa sd da dd modified_Fin [OF nz] blend_Fin transfer_spec_def)
  finally show ?thesis using sa sd da dd by simp
qed

section \<open>Closed evaluation\<close>

lemma ref_lib_simps:
  "cvtPixel ref_lib = (\<lambda>code d. swapRB)" "cvLog ref_lib = ref_log" "cvExp ref_lib = ref_exp"
  "uchar_unspecified ref_lib = ref_unspecified"
  by (simp_all add: ref_lib_def)

lemmas eval_defs = subspaceSrc_def subspaceDst_def logSpace_def floatSpace_def cvtColor_def
  convertTo_32FC3_def ref_lib_simps swapRB_def gray_def image_def rgb_state_def init_state_def
  forwardConversion_def backwardConversion_def

lemma two_tone_src: "subspaceSrc ref_lib (two_tone v) =
   [(Fin (ln 2), Fin (ln 2), Fin (ln 2)), (Fin (ln 4), Fin (ln 4), Fin (ln 4))]"
  by (simp add: two_tone_def eval_defs)

lemma two_tone_dst: "subspaceDst ref_lib (two_tone v) =
   [(Fin 0, Fin 0, Fin 0), (Fin (ln 2), Fin (ln 2), Fin (ln 2))]"
  by (simp add: two_tone_def eval_defs)

lemma scenario_src: "subspaceSrc ref_lib (scenario v) =
   [(Fin (ln 200), Fin (ln 100), Fin (ln 50)), (Fin (ln 200), Fin (ln 100), Fin (ln 50)),
    (Fin (ln 200), Fin (ln 100), Fin (ln 50)), (Fin (ln 200), Fin (ln 100), Fin (ln 50))]"
  by (simp add: scenario_def eval_defs)

lemma scenario_dst: "subspaceDst ref_lib (scenario v) =
   [(Fin (ln 50), Fin (ln 100), Fin (ln 200)), (Fin (ln 50), Fin (ln 100), Fin (ln 200)),
    (Fin (ln 50), Fin (ln 100), Fin (ln 200)), (Fin (ln 50), Fin (ln 100), Fin (ln 200))]"
  by (simp add: scenario_def eval_defs)

lemma mean_pair: "mean [x, y] = (x + y) / 2"
  by (simp add: mean_def)

lemma stddev_pair: "stddev [x, y] = \<bar>x - y\<bar> / 2"
proof -
  have "(x - (x + y) / 2)\<^sup>2 + (y - (x + y) / 2)\<^sup>2 = 2 * ((x - y) / 2)\<^sup>2"
    by (simp add: power2_eq_square field_simps)
  then have "stddev [x, y] = sqrt (((x - y) / 2)\<^sup>2)"
    by (simp add: stddev_def mean_pair)
  then show ?thesis by simp
qed

lemma ln_pow2: "ln ((2::real) ^ n) = real n * ln 2"
  by (rule ln_realpow)

lemma ln4: "ln (4::real) = 2 * ln 2"
  using ln_pow2 [of 2] by simp

lemma three_cases: "c < 3 \<Longrightarrow> c = 0 \<or> c = 1 \<or> c = (2::nat)"
  by arith

lemma two_tone_planes:
  assumes "c < 3"
  shows "plane c (subspaceSrc ref_lib (two_tone v)) = [ln 2, 2 * ln 2]"
    and "plane c (subspaceDst ref_lib (two_tone v)) = [0, ln 2]"
    and "map (chan c) (subspaceDst ref_lib (two_tone v)) = [Fin 0, Fin (ln 2)]"
  using three_cases [OF assms] by (auto simp: two_tone_src two_tone_dst plane_def ln4)

lemma two_tone_finite:
  "finite_mat (subspaceSrc ref_lib (two_tone v))" "subspaceSrc ref_lib (two_tone v) \<noteq> []"
  "finite_mat (subspaceDst ref_lib (two_tone v))" "subspaceDst ref_lib (two_tone v) \<noteq> []"
  by (simp_all add: two_tone_src two_tone_dst finite_mat_def)

lemma two_tone_vals: "componentVals (two_tone v) c = v"
  by (simp add: two_tone_def rgb_state_def)

lemma two_tone_dev: 
  assumes "c < 3" shows "dstDevs ref_lib (two_tone v) ! c = Fin (ln 2 / 2)"
  using finite_stats(2) [OF two_tone_finite(3,4) assms, of v]
  by (simp add: stats_nth [OF assms] two_tone_planes [OF assms] stddev_pair)

lemma two_tone_dev_nz: "c < 3 \<Longrightarrow> dstDevs ref_lib (two_tone v) ! c \<noteq> Fin 0"
  by (simp add: two_tone_dev)

lemma two_tone_sample:
  assumes "c < 3"
  shows "transferSample ref_lib (two_tone v) c (Fin x) = Fin (x + ln 2 * (real_of_int v / 100))"
  by (simp add: transferSample_finite [OF two_tone_finite assms two_tone_dev_nz [OF assms]]
      two_tone_planes [OF assms] mean_pair stddev_pair transfer_spec_def rate_def two_tone_vals
      algebra_simps)

lemma two_tone_result:
  assumes "c < 3"
  shows "map (chan c) (logTransfer ref_lib (two_tone v)) =
         [Fin (ln 2 * (real_of_int v / 100)), Fin (ln 2 + ln 2 * (real_of_int v / 100))]"
  by (simp add: logTransfer_plane [OF assms] two_tone_planes [OF assms] two_tone_sample [OF assms])

lemma scenario_finite:
  "finite_mat (subspaceDst ref_lib (scenario v))" "subspaceDst ref_lib (scenario v) \<noteq> []"
  by (simp_all add: scenario_dst finite_mat_def)

lemma scenario_dev: "dstDevs ref_lib (scenario v) ! 0 = Fin 0"
proof -
  have p: "plane 0 (subspaceDst ref_lib (scenario v)) = [ln 50, ln 50, ln 50, ln 50]"
    by (simp add: scenario_dst plane_def)
  have "stddev [ln 50, ln 50, ln 50, ln 50 :: real] = 0"
    by (simp add: stddev_def mean_def)
  then show ?thesis
    using finite_stats(2) [OF scenario_finite, of 0 v]
    by (simp add: stats_nth p)
qed

lemma scenario_result:
  "map (chan 0) (logTransfer ref_lib (scenario v)) = [NaN, NaN, NaN, NaN]"
  using flat_plane_result [OF scenario_finite _ scenario_dev, of v]
  by (simp add: scenario_dst)

lemma ln_numerals:
  "ln (8::real) = 3 * ln 2" "ln (16::real) = 4 * ln 2" "ln (32::real) = 5 * ln 2"
  "ln (128::real) = 7 * ln 2" "ln (256::real) = 8 * ln 2"
  using ln_pow2 [of 3] ln_pow2 [of 4] ln_pow2 [of 5] ln_pow2 [of 7] ln_pow2 [of 8] by simp_all

lemma exp_ln2: "exp (4 * ln (2::real)) = 16" "exp (9 * ln (2::real)) = 512"
  using exp_of_nat_mult [of 4 "ln (2::real)"] exp_of_nat_mult [of 9 "ln (2::real)"] by simp_all

lemma ln2_gt_half: "1 / 2 < ln (2::real)"
proof -
  have "(exp (1 / 2 :: real))\<^sup>2 = exp 1"
    using exp_double [of "1 / 2 :: real"] by simp
  also have "\<dots> \<le> 3" by (rule exp_le)
  finally have "(exp (1 / 2 :: real))\<^sup>2 < 2\<^sup>2" by simp
  then have "exp (1 / 2 :: real) < 2"
    by (rule power2_less_imp_less) simp
  then have "ln (exp (1 / 2 :: real)) < ln 2"
    by (subst ln_less_cancel_iff) simp_all
  then show ?thesis by simp
qed

lemma skewed_src: "subspaceSrc ref_lib skewed =
   [(Fin (3 * ln 2), Fin (3 * ln 2), Fin (3 * ln 2)), (Fin (7 * ln 2), Fin (7 * ln 2), Fin (7 * ln 2))]"
  by (simp add: skewed_def eval_defs ln_numerals)

lemma skewed_dst: "subspaceDst ref_lib skewed =
   [(Fin 0, Fin 0, Fin 0), (Fin 0, Fin 0, Fin 0), (Fin 0, Fin 0, Fin 0), (Fin 0, Fin 0, Fin 0),
    (Fin (5 * ln 2), Fin (5 * ln 2), Fin (5 * ln 2))]"
  by (simp add: skewed_def eval_defs ln_numerals)

lemma skewed_finite:
  "finite_mat (subspaceSrc ref_lib skewed)" "subspaceSrc ref_lib skewed \<noteq> []"
  "finite_mat (subspaceDst ref_lib skewed)" "subspaceDst ref_lib skewed \<noteq> []"
  by (simp_all add: skewed_src skewed_dst finite_mat_def)

lemma skewed_planes:
  assumes "c < 3"
  shows "plane c (subspaceSrc ref_lib skewed) = [3 * ln 2, 7 * ln 2]"
    and "plane c (subspaceDst ref_lib skewed) = [0, 0, 0, 0, 5 * ln 2]"
  using three_cases [OF assms] by (auto simp: skewed_src skewed_dst plane_def)

lemma skewed_dst_stats:
  "mean [0, 0, 0, 0, 5 * ln (2::real)] = ln 2" "stddev [0, 0, 0, 0, 5 * ln (2::real)] = 2 * ln 2"
proof -
  show m: "mean [0, 0, 0, 0, 5 * ln (2::real)] = ln 2"
    by (simp add: mean_def)
  have "sum_list (map (\<lambda>x. (x - ln 2)\<^sup>2) [0, 0, 0, 0, 5 * ln (2::real)]) = 5 * (2 * ln 2)\<^sup>2"
    by (simp add: power2_eq_square algebra_simps)
  then have "stddev [0, 0, 0, 0, 5 * ln (2::real)] = sqrt ((2 * ln 2)\<^sup>2)"
    by (simp add: stddev_def m)
  then show "stddev [0, 0, 0, 0, 5 * ln (2::real)] = 2 * ln 2"
    by (simp add: real_sqrt_mult)
qed

lemma skewed_dev_nz: "c < 3 \<Longrightarrow> dstDevs ref_lib skewed ! c \<noteq> Fin 0"
  using finite_stats(2) [OF skewed_finite(3,4), of c]
  by (simp add: stats_nth skewed_planes skewed_dst_stats)

lemma skewed_vals: "componentVals skewed c = 100"
  by (simp add: skewed_def rgb_state_def)

lemma skewed_sample:
  assumes "c < 3"
  shows "transferSample ref_lib skewed c (Fin x) = Fin (x + 4 * ln 2)"
  by (simp add: transferSample_finite [OF skewed_finite assms skewed_dev_nz [OF assms]]
      skewed_planes [OF assms] mean_pair stddev_pair skewed_dst_stats transfer_spec_def rate_def
      skewed_vals)

lemma skewed_log: "logTransfer ref_lib skewed =
   [(Fin (4 * ln 2), Fin (4 * ln 2), Fin (4 * ln 2)), (Fin (4 * ln 2), Fin (4 * ln 2), Fin (4 * ln 2)),
    (Fin (4 * ln 2), Fin (4 * ln 2), Fin (4 * ln 2)), (Fin (4 * ln 2), Fin (4 * ln 2), Fin (4 * ln 2)),
    (Fin (9 * ln 2), Fin (9 * ln 2), Fin (9 * ln 2))]"
  by (simp add: logTransfer_pixels skewed_dst skewed_sample)

lemma cvRound_int: "cvRound (of_int n) = n"
  by (simp add: cvRound_def)

lemma skewed_out: "subspaceTransfer ref_lib skewed =
   [(16, 16, 16), (16, 16, 16), (16, 16, 16), (16, 16, 16), (255, 255, 255)]"
  using cvRound_int [of 16] cvRound_int [of 512]
  by (simp add: subspaceTransfer_def convertTo_8UC3_def skewed_log ref_lib_simps exp_ln2
      fits_int_def)

lemma skewed_transfer:
  "transfer (colorTransfer ref_lib skewed) =
     image CV_8U 1 5 [gray 16, gray 16, gray 16, gray 16, gray 255]"
  by (simp add: colorTransfer_def skewed_out)
     (simp add: skewed_def eval_defs)

lemma skewed_out_log:
  "logSpace ref_lib (forwardConversion RGB) (transfer (colorTransfer ref_lib skewed)) =
   [(Fin (4 * ln 2), Fin (4 * ln 2), Fin (4 * ln 2)), (Fin (4 * ln 2), Fin (4 * ln 2), Fin (4 * ln 2)),
    (Fin (4 * ln 2), Fin (4 * ln 2), Fin (4 * ln 2)), (Fin (4 * ln 2), Fin (4 * ln 2), Fin (4 * ln 2)),
    (Fin (ln 255), Fin (ln 255), Fin (ln 255))]"
  by (simp add: skewed_transfer eval_defs ln_numerals)

section \<open>The transfer: properties\<close>

text \<open>
  C2: for every state and every channel \<open>c\<close> in 0, 1, 2, the four statistics of the
  channel are the means and the standard deviations over all pixels of the reference and
  of the target in log space, and every sample \<open>x\<close> of the target plane becomes
  \<open>x * (1 - ratio) + ((srcDev / dstDev) * (x - dstAvg) + srcAvg) * ratio\<close> in
  floating-point operations, where \<open>ratio\<close> is the trackbar value of the channel over
  100. When the two images in log space hold finite samples and are not empty and the
  target standard deviation \<open>dstDevs[c]\<close> is not zero, the statistics are the real mean and
  standard deviation and the sample is the real value of that formula.
\<close>

theorem logTransfer_formula:
  assumes "c < 3"
  shows "srcAvgs lib s ! c = fl_mean (map (chan c) (subspaceSrc lib s)) \<and>
         srcDevs lib s ! c = fl_stddev (map (chan c) (subspaceSrc lib s)) \<and>
         dstAvgs lib s ! c = fl_mean (map (chan c) (subspaceDst lib s)) \<and>
         dstDevs lib s ! c = fl_stddev (map (chan c) (subspaceDst lib s)) \<and>
         map (chan c) (logTransfer lib s) =
           map (\<lambda>x. fl_add (fl_mul x (Fin (1 - rate (componentVals s) c)))
                      (fl_mul (fl_add (fl_mul (fl_div (srcDevs lib s ! c) (dstDevs lib s ! c))
                                         (fl_sub x (dstAvgs lib s ! c)))
                                 (srcAvgs lib s ! c))
                         (Fin (rate (componentVals s) c))))
               (map (chan c) (subspaceDst lib s)) \<and>
         (finite_mat (subspaceSrc lib s) \<and> subspaceSrc lib s \<noteq> [] \<and>
          finite_mat (subspaceDst lib s) \<and> subspaceDst lib s \<noteq> [] \<and>
          dstDevs lib s ! c \<noteq> Fin 0 \<longrightarrow>
            srcAvgs lib s ! c = Fin (mean (plane c (subspaceSrc lib s))) \<and>
            srcDevs lib s ! c = Fin (stddev (plane c (subspaceSrc lib s))) \<and>
            dstAvgs lib s ! c = Fin (mean (plane c (subspaceDst lib s))) \<and>
            dstDevs lib s ! c = Fin (stddev (plane c (subspaceDst lib s))) \<and>
            map (chan c) (logTransfer lib s) =
              map (\<lambda>x. Fin (transfer_spec (rate (componentVals s) c)
                          (mean (plane c (subspaceSrc lib s))) (stddev (plane c (subspaceSrc lib s)))
                          (mean (plane c (subspaceDst lib s))) (stddev (plane c (subspaceDst lib s)))
                          x))
                  (plane c (subspaceDst lib s)))"
proof -
  have "map (chan c) (logTransfer lib s) =
      map (\<lambda>x. fl_add (fl_mul x (Fin (1 - rate (componentVals s) c)))
                      (fl_mul (fl_add (fl_mul (fl_div (srcDevs lib s ! c) (dstDevs lib s ! c))
                                         (fl_sub x (dstAvgs lib s ! c)))
                                 (srcAvgs lib s ! c))
                         (Fin (rate (componentVals s) c))))
          (map (chan c) (subspaceDst lib s))"
    using logTransfer_plane [OF assms, of lib s]
    by (simp add: transferSample_def [abs_def] blend_def modified_def)
  then show ?thesis
    using stats_nth [OF assms, of lib s] logTransfer_plane_finite [of lib s c] assms
    by blast
qed

theorem logTransfer_formula_witness:
  "(0::nat) < 3 \<and>
   finite_mat (subspaceSrc ref_lib (two_tone 50)) \<and> subspaceSrc ref_lib (two_tone 50) \<noteq> [] \<and>
   finite_mat (subspaceDst ref_lib (two_tone 50)) \<and> subspaceDst ref_lib (two_tone 50) \<noteq> [] \<and>
   dstDevs ref_lib (two_tone 50) ! 0 \<noteq> Fin 0 \<and>
   dstDevs ref_lib (two_tone 50) ! 0 = Fin (ln 2 / 2) \<and>
   map (chan 0) (logTransfer ref_lib (two_tone 50)) = [Fin (ln 2 / 2), Fin (3 * ln 2 / 2)]"
proof -
  have c: "(0::nat) < 3" by simp
  note h = two_tone_finite [of 50] two_tone_dev_nz [OF c, of 50]
  from logTransfer_formula [OF c, of ref_lib "two_tone 50"] h
  have "map (chan 0) (logTransfer ref_lib (two_tone 50)) =
      map (\<lambda>x. Fin (transfer_spec (rate (componentVals (two_tone 50)) 0)
                  (mean (plane 0 (subspaceSrc ref_lib (two_tone 50))))
                  (stddev (plane 0 (subspaceSrc ref_lib (two_tone 50))))
                  (mean (plane 0 (subspaceDst ref_lib (two_tone 50))))
                  (stddev (plane 0 (subspaceDst ref_lib (two_tone 50)))) x))
          (plane 0 (subspaceDst ref_lib (two_tone 50)))"
    by blast
  then have "map (chan 0) (logTransfer ref_lib (two_tone 50)) = [Fin (ln 2 / 2), Fin (3 * ln 2 / 2)]"
    by (simp add: two_tone_planes [OF c] mean_pair stddev_pair transfer_spec_def two_tone_vals
        rate_def)
  then show ?thesis
    using h two_tone_dev [OF c, of 50] by simp
qed

text \<open>
  C1, as the code has it: the division \<open>srcDevs[c] / dstDevs[c]\<close> has no guard. When the
  standard deviation \<open>dstDevs[c]\<close> of a channel of a finite, non-empty target is zero, the
  quotient is not a finite number, and every sample of that channel of the result in log
  space is NaN, whatever the three ratios are.
\<close>

theorem flat_channel_unguarded:
  assumes "finite_mat (subspaceDst lib s)" and "subspaceDst lib s \<noteq> []"
    and "c < 3" and "dstDevs lib s ! c = Fin 0"
  shows "\<not> finite_fl (fl_div (srcDevs lib s ! c) (dstDevs lib s ! c)) \<and>
         map (chan c) (logTransfer lib s) = replicate (length (subspaceDst lib s)) NaN"
  using flat_plane_result [OF assms] assms(4) by (simp add: fl_div_zero_infinite)

theorem flat_channel_unguarded_witness:
  "finite_mat (subspaceDst ref_lib (scenario 100)) \<and> subspaceDst ref_lib (scenario 100) \<noteq> [] \<and>
   (0::nat) < 3 \<and> dstDevs ref_lib (scenario 100) ! 0 = Fin 0 \<and>
   \<not> finite_fl (fl_div (srcDevs ref_lib (scenario 100) ! 0) (dstDevs ref_lib (scenario 100) ! 0)) \<and>
   map (chan 0) (logTransfer ref_lib (scenario 100)) =
     replicate (length (subspaceDst ref_lib (scenario 100))) NaN"
  using flat_channel_unguarded [OF scenario_finite _ scenario_dev, of 100] scenario_finite [of 100]
    scenario_dev [of 100]
  by simp

text \<open>
  The end-to-end scenario of the specification, at ratio 1: the target is uniform, the
  standard deviation of its first channel is zero, and the first channel of the result in
  log space is NaN in all four pixels; it is not the mean \<open>ln 200\<close> of the reference.
\<close>

theorem flat_channel_counterexample:
  "dstDevs ref_lib (scenario 100) ! 0 = Fin 0 \<and>
   map (chan 0) (logTransfer ref_lib (scenario 100)) = [NaN, NaN, NaN, NaN] \<and>
   \<not> finite_fl NaN \<and>
   map (chan 0) (subspaceSrc ref_lib (scenario 100)) =
     [Fin (ln 200), Fin (ln 200), Fin (ln 200), Fin (ln 200)]"
  by (simp add: scenario_dev scenario_result scenario_src)

text \<open>
  C3, as the code has it: when the two images in log space hold finite samples and are
  not empty, no channel of the target has standard deviation zero, and the three trackbar
  values are 0, the result in log space is the target in log space, sample by sample, so
  the output before the backward conversion is the exponential of the logarithm of the
  converted target, converted to 8 bits.
\<close>

theorem ratio_zero_identity:
  assumes "finite_mat (subspaceSrc lib s)" and "subspaceSrc lib s \<noteq> []"
    and "finite_mat (subspaceDst lib s)" and "subspaceDst lib s \<noteq> []"
    and "\<forall>c<3. dstDevs lib s ! c \<noteq> Fin 0"
    and "\<forall>c<3. componentVals s c = 0"
  shows "logTransfer lib s = subspaceDst lib s \<and>
         subspaceTransfer lib s =
           convertTo_8UC3 lib (map (map_px3 (cvExp lib)) (subspaceDst lib s))"
proof -
  have "transferSample lib s c (chan c p) = chan c p"
    if "p \<in> set (subspaceDst lib s)" "c < 3" for p c
  proof -
    from assms(5,6) that(2) have d: "dstDevs lib s ! c \<noteq> Fin 0" and r: "rate (componentVals s) c = 0"
      by (simp_all add: rate_def)
    have "transferSample lib s c (Fin (the_fin (chan c p))) = Fin (the_fin (chan c p))"
      by (simp add: transferSample_finite [OF assms(1,2,3,4) that(2) d] r transfer_spec_0)
    then show ?thesis
      using finite_mat_chan [OF assms(3) that] by simp
  qed
  then have "(transferSample lib s 0 (chan 0 p), transferSample lib s 1 (chan 1 p),
         transferSample lib s 2 (chan 2 p)) = p" if "p \<in> set (subspaceDst lib s)" for p
    using that by (intro px3_eqI) simp_all
  then have "logTransfer lib s = subspaceDst lib s"
    by (simp add: logTransfer_pixels map_idI)
  then show ?thesis
    by (simp add: subspaceTransfer_def)
qed

theorem ratio_zero_identity_witness:
  "finite_mat (subspaceSrc ref_lib (two_tone 0)) \<and> subspaceSrc ref_lib (two_tone 0) \<noteq> [] \<and>
   finite_mat (subspaceDst ref_lib (two_tone 0)) \<and> subspaceDst ref_lib (two_tone 0) \<noteq> [] \<and>
   dstDevs ref_lib (two_tone 0) ! 0 \<noteq> Fin 0 \<and> dstDevs ref_lib (two_tone 0) ! 1 \<noteq> Fin 0 \<and>
   dstDevs ref_lib (two_tone 0) ! 2 \<noteq> Fin 0 \<and> componentVals (two_tone 0) 0 = 0 \<and>
   componentVals (two_tone 0) 1 = 0 \<and> componentVals (two_tone 0) 2 = 0 \<and>
   logTransfer ref_lib (two_tone 0) =
     [(Fin 0, Fin 0, Fin 0), (Fin (ln 2), Fin (ln 2), Fin (ln 2))]"
proof -
  have d: "\<forall>c<3. dstDevs ref_lib (two_tone 0) ! c \<noteq> Fin 0"
    by (simp add: two_tone_dev_nz)
  have v: "\<forall>c<3. componentVals (two_tone 0) c = 0"
    by (simp add: two_tone_vals)
  show ?thesis
    using ratio_zero_identity [OF two_tone_finite d v] two_tone_finite [of 0] d v
    by (simp add: two_tone_dst)
qed

text \<open>
  The end-to-end scenario of the specification, at ratio 0: the first channel of the
  target in log space is \<open>ln 50\<close> in all four pixels, and the first channel of the result
  in log space is NaN in all four.
\<close>

theorem ratio_zero_counterexample:
  "rate (componentVals (scenario 0)) 0 = 0 \<and>
   map (chan 0) (subspaceDst ref_lib (scenario 0)) =
     [Fin (ln 50), Fin (ln 50), Fin (ln 50), Fin (ln 50)] \<and>
   map (chan 0) (logTransfer ref_lib (scenario 0)) = [NaN, NaN, NaN, NaN]"
  by (simp add: scenario_result scenario_dst) (simp add: rate_def scenario_def rgb_state_def)

text \<open>
  C4, as the code has it: when the two images in log space hold finite samples and are
  not empty, no channel of the target has standard deviation zero, and the three trackbar
  values are 100, the result in log space, before the exponential and the conversion to
  8 bits, has in each channel the mean and the standard deviation of the reference in log
  space.
\<close>

theorem ratio_one_statistics:
  assumes "finite_mat (subspaceSrc lib s)" and "subspaceSrc lib s \<noteq> []"
    and "finite_mat (subspaceDst lib s)" and "subspaceDst lib s \<noteq> []"
    and "\<forall>c<3. dstDevs lib s ! c \<noteq> Fin 0"
    and "\<forall>c<3. componentVals s c = 100"
  shows "meanStdDev (logTransfer lib s) = meanStdDev (subspaceSrc lib s)"
proof -
  have stat: "fl_mean (map (chan c) (logTransfer lib s)) = fl_mean (map (chan c) (subspaceSrc lib s)) \<and>
      fl_stddev (map (chan c) (logTransfer lib s)) = fl_stddev (map (chan c) (subspaceSrc lib s))"
    if c: "c < 3" for c
  proof -
    let ?S = "plane c (subspaceSrc lib s)" and ?D = "plane c (subspaceDst lib s)"
    from assms(5,6) c have d: "dstDevs lib s ! c \<noteq> Fin 0" and r: "rate (componentVals s) c = 1"
      by (simp_all add: rate_def)
    have dd: "dstDevs lib s ! c = Fin (stddev ?D)"
      using finite_stats [OF assms(3,4) c] by (simp add: stats_nth [OF c])
    with d have nz: "stddev ?D \<noteq> 0" by simp
    have ne: "?D \<noteq> []" using assms(4) by (simp add: plane_Nil_iff)
    let ?a = "stddev ?S / stddev ?D"
    let ?R = "map (\<lambda>x. ?a * (x - mean ?D) + mean ?S) ?D"
    have "map (chan c) (logTransfer lib s) = map (transferSample lib s c) (map Fin ?D)"
      by (simp only: logTransfer_plane [OF c] finite_mat_plane [OF assms(3) c])
    also have "\<dots> = map Fin ?R"
      by (simp add: transferSample_finite [OF assms(1,2,3,4) c d] r transfer_spec_1)
    finally have res: "map (chan c) (logTransfer lib s) = map Fin ?R" .
    have Rne: "?R \<noteq> []" using ne by simp
    have "0 \<le> ?a" by (simp add: stddev_nonneg)
    then have "\<bar>?a\<bar> = ?a" by (rule abs_of_nonneg)
    then have "\<bar>?a\<bar> * stddev ?D = stddev ?S"
      using nz by simp
    then have sR: "stddev ?R = stddev ?S"
      by (simp only: stddev_affine [OF ne])
    have mR: "mean ?R = mean ?S" by (rule mean_affine [OF ne])
    have "fl_mean (map (chan c) (logTransfer lib s)) = Fin (mean ?S)"
      by (simp only: res fl_mean_Fin [OF Rne] mR)
    moreover have "fl_stddev (map (chan c) (logTransfer lib s)) = Fin (stddev ?S)"
      by (simp only: res fl_stddev_Fin [OF Rne] sR)
    ultimately show ?thesis
      by (simp only: finite_stats [OF assms(1,2) c])
  qed
  have "c = 0 \<or> c = 1 \<or> c = 2 \<Longrightarrow> c < 3" for c :: nat by arith
  then show ?thesis
    using stat [of 0] stat [of 1] stat [of 2] by (simp add: meanStdDev_def)
qed

theorem ratio_one_statistics_witness:
  "finite_mat (subspaceSrc ref_lib (two_tone 100)) \<and> subspaceSrc ref_lib (two_tone 100) \<noteq> [] \<and>
   finite_mat (subspaceDst ref_lib (two_tone 100)) \<and> subspaceDst ref_lib (two_tone 100) \<noteq> [] \<and>
   dstDevs ref_lib (two_tone 100) ! 0 \<noteq> Fin 0 \<and> dstDevs ref_lib (two_tone 100) ! 1 \<noteq> Fin 0 \<and>
   dstDevs ref_lib (two_tone 100) ! 2 \<noteq> Fin 0 \<and> componentVals (two_tone 100) 0 = 100 \<and>
   componentVals (two_tone 100) 1 = 100 \<and> componentVals (two_tone 100) 2 = 100 \<and>
   meanStdDev (logTransfer ref_lib (two_tone 100)) = meanStdDev (subspaceSrc ref_lib (two_tone 100))"
proof -
  have d: "\<forall>c<3. dstDevs ref_lib (two_tone 100) ! c \<noteq> Fin 0"
    by (simp add: two_tone_dev_nz)
  have v: "\<forall>c<3. componentVals (two_tone 100) c = 100"
    by (simp add: two_tone_vals)
  show ?thesis
    using ratio_one_statistics [OF two_tone_finite d v] two_tone_finite [of 100] d v
    by simp
qed

text \<open>
  A reference with the gray values 8 and 128 and a target with the gray values 1, 1, 1,
  1 and 32, at ratio 1: the last pixel of the result is \<open>exp (9 * ln 2) = 512\<close> in linear
  space and is saturated to 255. The mean of the first channel of the output image in log
  space is below the mean \<open>5 * ln 2\<close> of the reference by more than a tenth.
\<close>

theorem saturated_statistics_counterexample:
  "pixels (transfer (colorTransfer ref_lib skewed)) = [gray 16, gray 16, gray 16, gray 16, gray 255] \<and>
   fst (meanStdDev (subspaceSrc ref_lib skewed)) ! 0 = Fin (5 * ln 2) \<and>
   fst (meanStdDev (logSpace ref_lib (forwardConversion RGB) (transfer (colorTransfer ref_lib skewed)))) ! 0
     = Fin ((16 * ln 2 + ln 255) / 5) \<and>
   1 / 10 < 5 * ln 2 - (16 * ln 2 + ln 255) / (5::real)"
proof -
  have a: "pixels (transfer (colorTransfer ref_lib skewed)) = [gray 16, gray 16, gray 16, gray 16, gray 255]"
    by (simp add: skewed_transfer image_def)
  have b: "fst (meanStdDev (subspaceSrc ref_lib skewed)) ! 0 = Fin (5 * ln 2)"
    by (simp add: meanStdDev_def skewed_src fl_mean_def fl_sum_def)
  have c: "fst (meanStdDev (logSpace ref_lib (forwardConversion RGB) (transfer (colorTransfer ref_lib skewed)))) ! 0
     = Fin ((16 * ln 2 + ln 255) / 5)"
    by (simp add: meanStdDev_def skewed_out_log fl_mean_def fl_sum_def)
  have "ln (255::real) < ln 256"
    by (subst ln_less_cancel_iff) simp_all
  then have "ln (255::real) < 8 * ln 2" by (simp add: ln_numerals)
  moreover have "1 / 2 < a \<Longrightarrow> l < 8 * a \<Longrightarrow> 1 / 10 < 5 * a - (16 * a + l) / 5" for a l :: real
    by (simp add: field_simps)
  ultimately have d: "1 / 10 < 5 * ln 2 - (16 * ln 2 + ln 255) / (5::real)"
    using ln2_gt_half by blast
  from a b c d show ?thesis by simp
qed

text \<open>
  C5, as the code has it: the logarithm is applied to every sample of the two converted
  images as it is, a zero sample included; nothing is clamped before it. The logarithm
  operates on positive samples only when every sample of the converted image is positive.
\<close>

theorem log_unguarded:
  "subspaceSrc lib s =
     map (map_px3 (\<lambda>v. cvLog lib (Fin (real v))))
       (cvtColor lib (forwardConversion (currentMode s)) (source s)) \<and>
   subspaceDst lib s =
     map (map_px3 (\<lambda>v. cvLog lib (Fin (real v))))
       (cvtColor lib (forwardConversion (currentMode s)) (dest s)) \<and>
   (positive_mat (floatSpace lib code m) \<longleftrightarrow>
      list_all (\<lambda>p. 0 < chan 0 p \<and> 0 < chan 1 p \<and> 0 < chan 2 p) (cvtColor lib code m))"
proof -
  have comp: "map_px3 f (map_px3 g p) = map_px3 (\<lambda>v. f (g v)) p" for f :: "fl \<Rightarrow> fl"
    and g :: "nat \<Rightarrow> fl" and p
    by (cases p) simp
  have pos: "positive_fl (chan c (map_px3 (\<lambda>v. Fin (real v)) p)) = (0 < chan c p)"
    for p :: "nat px3" and c
    by (cases p) simp
  show ?thesis
    by (simp add: subspaceSrc_def subspaceDst_def logSpace_def floatSpace_def convertTo_32FC3_def
        positive_mat_def comp pos list_all_iff o_def)
qed

theorem log_unguarded_witness:
  "positive_mat (floatSpace ref_lib CV_BGR2RGB (image CV_8U 1 2 [gray 1, gray 2])) \<and>
   subspaceDst ref_lib (two_tone 0) =
     [(Fin 0, Fin 0, Fin 0), (Fin (ln 2), Fin (ln 2), Fin (ln 2))]"
  using log_unguarded [of ref_lib "two_tone 0" CV_BGR2RGB "image CV_8U 1 2 [gray 1, gray 2]"]
  by (simp add: two_tone_def eval_defs)

text \<open>
  A target with a black pixel: the matrix handed to the logarithm holds the sample 0,
  which is not positive, and the first pixel of the target in log space is the
  logarithm of the library at 0.
\<close>

theorem log_of_zero_counterexample:
  "floatSpace ref_lib (forwardConversion (currentMode with_black)) (dest with_black) =
     [(Fin 0, Fin 0, Fin 0), (Fin 2, Fin 2, Fin 2)] \<and>
   \<not> positive_mat (floatSpace ref_lib (forwardConversion (currentMode with_black)) (dest with_black)) \<and>
   \<not> positive_fl (Fin 0) \<and>
   hd (subspaceDst ref_lib with_black) =
     (cvLog ref_lib (Fin 0), cvLog ref_lib (Fin 0), cvLog ref_lib (Fin 0))"
  by (simp add: with_black_def positive_mat_def subspaceDst_def logSpace_def floatSpace_def
      cvtColor_def convertTo_32FC3_def swapRB_def gray_def image_def rgb_state_def init_state_def
      forwardConversion_def ref_lib_def)

section \<open>The keypress parser: properties\<close>

lemma gui_call [simp]:
  "source (call g s) = source s" "dest (call g s) = dest s" "transfer (call g s) = transfer s"
  "componentNames (call g s) = componentNames s" "componentVals (call g s) = componentVals s"
  "currentMode (call g s) = currentMode s"
  by (simp_all add: call_def)

lemma trackbarLoop_fields:
  "source (trackbarLoop i s) = source s \<and> dest (trackbarLoop i s) = dest s \<and>
   transfer (trackbarLoop i s) = transfer s \<and> currentMode (trackbarLoop i s) = currentMode s \<and>
   componentNames (trackbarLoop i s) = componentNames s"
proof (induction i s rule: trackbarLoop.induct)
  case (1 i s)
  show ?case
  proof (cases "i < 3")
    case True
    with 1 show ?thesis by (subst (1 2 3 4 5) trackbarLoop.simps) simp
  next
    case False
    then show ?thesis by (subst (1 2 3 4 5) trackbarLoop.simps) simp
  qed
qed

lemma trackbarLoop_vals:
  "componentVals (trackbarLoop i s) c = (if i \<le> c \<and> c < 3 then 100 else componentVals s c)"
proof (induction i s rule: trackbarLoop.induct)
  case (1 i s)
  show ?case
  proof (cases "i < 3")
    case True
    with 1 show ?thesis by (subst trackbarLoop.simps) auto
  next
    case False
    then show ?thesis by (subst trackbarLoop.simps) simp
  qed
qed

lemma updateTransfer_fields:
  "source (updateTransfer lib s) = source s \<and> dest (updateTransfer lib s) = dest s \<and>
   currentMode (updateTransfer lib s) = currentMode s \<and>
   componentNames (updateTransfer lib s) = componentNames s \<and>
   componentVals (updateTransfer lib s) = componentVals s \<and>
   transfer (updateTransfer lib s) = transfer (colorTransfer lib s)"
  by (simp add: updateTransfer_def Let_def colorTransfer_def)

lemma colorTransfer_fields [simp]:
  "source (colorTransfer lib s) = source s" "dest (colorTransfer lib s) = dest s"
  "currentMode (colorTransfer lib s) = currentMode s"
  "componentNames (colorTransfer lib s) = componentNames s"
  "componentVals (colorTransfer lib s) = componentVals s"
  "gui (colorTransfer lib s) = gui s"
  by (simp_all add: colorTransfer_def)

lemma colorTransfer_cong:
  assumes "source a = source b" "dest a = dest b" "componentVals a = componentVals b"
    "currentMode a = currentMode b"
  shows "transfer (colorTransfer lib a) = transfer (colorTransfer lib b)"
  using assms
  by (simp add: colorTransfer_def subspaceTransfer_def logTransfer_def subspaceSrc_def
      subspaceDst_def srcAvgs_def srcDevs_def dstAvgs_def dstDevs_def)

lemma refreshTrackbars_fields:
  "source (refreshTrackbars lib s) = source s" "dest (refreshTrackbars lib s) = dest s"
  "currentMode (refreshTrackbars lib s) = currentMode s"
  "componentNames (refreshTrackbars lib s) = componentNames s"
  by (simp_all add: refreshTrackbars_def updateTransfer_fields trackbarLoop_fields)

lemma refreshTrackbars_vals:
  "componentVals (refreshTrackbars lib s) c = (if c < 3 then 100 else componentVals s c)"
  by (simp add: refreshTrackbars_def updateTransfer_fields trackbarLoop_vals)

lemma refreshTrackbars_transfer:
  "transfer (refreshTrackbars lib s) = transfer (colorTransfer lib (refreshTrackbars lib s))"
proof -
  let ?t = "call (ResizeWindow controls 600 125)
          (trackbarLoop 0
             (call (MoveWindow controls (cols (dest s) + 10) (rows (dest s) + 155))
                (call (NamedWindow controls WINDOW_NORMAL)
                   (call (DestroyWindow controls) s))))"
  have r: "refreshTrackbars lib s = updateTransfer lib ?t"
    by (simp add: refreshTrackbars_def)
  have "transfer (updateTransfer lib ?t) = transfer (colorTransfer lib ?t)"
    by (simp add: updateTransfer_fields)
  also have "\<dots> = transfer (colorTransfer lib (updateTransfer lib ?t))"
    by (rule colorTransfer_cong) (simp_all add: updateTransfer_fields)
  finally show ?thesis by (simp add: r)
qed

lemma setMode_same: "currentMode s = m \<Longrightarrow> setMode lib m n0 n1 n2 s = (1, s)"
  by (simp add: setMode_def)

lemma setMode_switch:
  assumes "currentMode s \<noteq> m"
  shows "fst (setMode lib m n0 n1 n2 s) = 1"
    and "currentMode (snd (setMode lib m n0 n1 n2 s)) = m"
    and "componentVals (snd (setMode lib m n0 n1 n2 s)) 0 = 100"
    and "componentVals (snd (setMode lib m n0 n1 n2 s)) 1 = 100"
    and "componentVals (snd (setMode lib m n0 n1 n2 s)) 2 = 100"
    and "componentNames (snd (setMode lib m n0 n1 n2 s)) 0 = n0"
    and "componentNames (snd (setMode lib m n0 n1 n2 s)) 1 = n1"
    and "componentNames (snd (setMode lib m n0 n1 n2 s)) 2 = n2"
    and "transfer (snd (setMode lib m n0 n1 n2 s)) =
         transfer (colorTransfer lib (snd (setMode lib m n0 n1 n2 s)))"
  using assms
  by (simp_all add: setMode_def refreshTrackbars_fields refreshTrackbars_vals
      refreshTrackbars_transfer [symmetric])

lemma setMode_fst: "fst (setMode lib m n0 n1 n2 s) = 1"
  by (simp add: setMode_def)

text \<open>
  C8: a key of a colour space other than the current one makes that colour space the
  current one, sets the three trackbar values to 100, that is the three rates to 1, names
  the three trackbars as the specification says, and recomputes the transfer; a key of the
  current colour space returns 1 and leaves the whole state, with the transfer image and
  the record of HighGUI calls, as it was.
\<close>

theorem changeMode_switch:
  assumes "(k, m) \<in> keymap_spec"
  shows "(currentMode s \<noteq> m \<longrightarrow>
            fst (changeMode lib k s) = 1 \<and>
            currentMode (snd (changeMode lib k s)) = m \<and>
            (\<forall>c<3. componentVals (snd (changeMode lib k s)) c = 100 \<and>
                   rate (componentVals (snd (changeMode lib k s))) c = 1) \<and>
            map (componentNames (snd (changeMode lib k s))) [0, 1, 2] = labels_spec m \<and>
            transfer (snd (changeMode lib k s)) =
              transfer (colorTransfer lib (snd (changeMode lib k s)))) \<and>
         (currentMode s = m \<longrightarrow> changeMode lib k s = (1, s))"
proof -
  have three: "\<And>P. (\<forall>c<3. P c) = (P (0::nat) \<and> P 1 \<and> P 2)"
  proof -
    fix P :: "nat \<Rightarrow> bool"
    have "\<And>c::nat. c < 3 \<longleftrightarrow> c = 0 \<or> c = 1 \<or> c = 2" by arith
    then show "(\<forall>c<3. P c) = (P 0 \<and> P 1 \<and> P 2)" by auto
  qed
  from assms consider
    "k = CHR ''l''" "m = LAB" | "k = CHR ''L''" "m = LAB" |
    "k = CHR ''r''" "m = RGB" | "k = CHR ''R''" "m = RGB" |
    "k = CHR ''h''" "m = HSV" | "k = CHR ''H''" "m = HSV" |
    "k = CHR ''x''" "m = XYZ" | "k = CHR ''X''" "m = XYZ"
    by (auto simp: keymap_spec_def)
  then show ?thesis
    by cases
      (simp_all add: changeMode_def three rate_def setMode_same setMode_switch
        del: One_nat_def)
qed

theorem changeMode_switch_witness:
  "(CHR ''r'', RGB) \<in> keymap_spec \<and>
   currentMode init_state \<noteq> RGB \<and>
   currentMode (snd (changeMode ref_lib CHR ''r'' init_state)) = RGB \<and>
   componentVals (snd (changeMode ref_lib CHR ''r'' init_state)) 2 = 100 \<and>
   map (componentNames (snd (changeMode ref_lib CHR ''r'' init_state))) [0, 1, 2] =
     [''Red'', ''Green'', ''Blue''] \<and>
   currentMode (init_state\<lparr>currentMode := RGB\<rparr>) = RGB \<and>
   changeMode ref_lib CHR ''r'' (init_state\<lparr>currentMode := RGB\<rparr>) =
     (1, init_state\<lparr>currentMode := RGB\<rparr>)"
proof -
  have k: "(CHR ''r'', RGB) \<in> keymap_spec" by (simp add: keymap_spec_def)
  have a: "currentMode init_state \<noteq> RGB" by (simp add: init_state_def)
  have b: "currentMode (init_state\<lparr>currentMode := RGB\<rparr>) = RGB" by simp
  show ?thesis
    using k a b changeMode_switch [OF k, of init_state ref_lib]
      changeMode_switch [OF k, of "init_state\<lparr>currentMode := RGB\<rparr>" ref_lib]
    by simp
qed

text \<open>
  C10: a keypress that is none of \<open>l L r R h H x X\<close> and not ESC returns 1 and leaves
  the state (mode, trackbar values, trackbar names and all the rest) as it was, so the
  event loop goes on to the next key with the same state; \<^verbatim>\<open>changeMode\<close> returns 0,
  which ends the loop, for ESC and for no other keypress.
\<close>

theorem changeMode_other_key:
  "(k \<notin> {CHR ''l'', CHR ''L'', CHR ''r'', CHR ''R'', CHR ''h'', CHR ''H'', CHR ''x'', CHR ''X'',
          CHR 0x1B} \<longrightarrow> changeMode lib k s = (1, s)) \<and>
   (fst (changeMode lib k s) = 0 \<longleftrightarrow> k = CHR 0x1B) \<and>
   (char_of key \<notin> {CHR ''l'', CHR ''L'', CHR ''r'', CHR ''R'', CHR ''h'', CHR ''H'', CHR ''x'',
          CHR ''X'', CHR 0x1B} \<longrightarrow> eventLoop lib s (key # ks) = eventLoop lib s ks)"
proof -
  have other: "changeMode lib c s = (1, s)"
    if "c \<notin> {CHR ''l'', CHR ''L'', CHR ''r'', CHR ''R'', CHR ''h'', CHR ''H'', CHR ''x'',
          CHR ''X'', CHR 0x1B}" for c
    using that by (simp add: changeMode_def)
  have esc: "fst (changeMode lib k s) = 0 \<longleftrightarrow> k = CHR 0x1B"
    by (simp add: changeMode_def setMode_fst)
  show ?thesis using other esc by simp
qed

theorem changeMode_other_key_witness:
  "CHR ''a'' \<notin> {CHR ''l'', CHR ''L'', CHR ''r'', CHR ''R'', CHR ''h'', CHR ''H'', CHR ''x'',
       CHR ''X'', CHR 0x1B} \<and>
   changeMode ref_lib CHR ''a'' init_state = (1, init_state) \<and>
   char_of (97 :: int) = CHR ''a'' \<and>
   eventLoop ref_lib init_state [97, 27] = eventLoop ref_lib init_state [27] \<and>
   fst (changeMode ref_lib CHR 0x1B init_state) = 0"
  using changeMode_other_key [of "CHR ''a''" ref_lib init_state 97 "[27]"]
    changeMode_other_key [of "CHR 0x1B" ref_lib init_state 97 "[27]"]
  by (simp add: char_of_def)

text \<open>
  C9: a run in which \<^verbatim>\<open>imread\<close> returns an empty matrix for the reference or the
  target file (a missing or unreadable file), or in which one of the two matrices has
  fewer than 3 channels, ends in \<^verbatim>\<open>exit\<close> with status 1. When the program is started
  with two or three arguments, the message is \<open>Image data missing\<close> in the first case
  and \<open>One of source/dest may not be a color image\<close> in the second, where both matrices
  hold data; the two messages differ.
\<close>

theorem main_invalid_input:
  "(empty (imread (argv ! 1)) \<or> empty (imread (argv ! 2)) \<or>
    channels (imread (argv ! 1)) < 3 \<or> channels (imread (argv ! 2)) < 3 \<longrightarrow>
      exit_status (main lib imread argv keys) = Some 1) \<and>
   (length argv = 3 \<or> length argv = 4 \<longrightarrow>
      (empty (imread (argv ! 1)) \<or> empty (imread (argv ! 2)) \<longrightarrow>
         main lib imread argv keys = Exit 1 ''Image data missing'') \<and>
      (\<not> empty (imread (argv ! 1)) \<and> \<not> empty (imread (argv ! 2)) \<and>
       (channels (imread (argv ! 1)) < 3 \<or> channels (imread (argv ! 2)) < 3) \<longrightarrow>
         main lib imread argv keys = Exit 1 ''One of source/dest may not be a color image'')) \<and>
   ''Image data missing'' \<noteq> ''One of source/dest may not be a color image''"
proof -
  let ?bad = "empty (imread (argv ! 1)) \<or> empty (imread (argv ! 2))"
  let ?few = "channels (imread (argv ! 1)) < 3 \<or> channels (imread (argv ! 2)) < 3"
  have count: "exit_status (main lib imread argv keys) = Some 1"
    if "length argv < 3 \<or> length argv > 4"
    using that by (simp add: main_def)
  have missing: "main lib imread argv keys = Exit 1 ''Image data missing''"
    if "length argv = 3 \<or> length argv = 4" and "?bad"
    using that by (auto simp: main_def Let_def)
  have colour: "main lib imread argv keys = Exit 1 ''One of source/dest may not be a color image''"
    if "length argv = 3 \<or> length argv = 4" and "\<not> ?bad" and "?few"
    using that by (auto simp: main_def Let_def)
  have status: "exit_status (main lib imread argv keys) = Some 1" if "?bad \<or> ?few"
  proof (cases "length argv = 3 \<or> length argv = 4")
    case True
    show ?thesis
    proof (cases "?bad")
      case True
      with \<open>length argv = 3 \<or> length argv = 4\<close> show ?thesis by (simp add: missing)
    next
      case False
      with that have "?few" by blast
      with \<open>length argv = 3 \<or> length argv = 4\<close> False show ?thesis by (simp add: colour)
    qed
  next
    case False
    then have "length argv < 3 \<or> length argv > 4" by arith
    then show ?thesis by (rule count)
  qed
  show ?thesis
    using status missing colour by auto
qed

theorem main_invalid_input_witness:
  "(length [''colortransfer'', ''ref.png'', ''tgt.png''] = 3 \<or>
    length [''colortransfer'', ''ref.png'', ''tgt.png''] = 4) \<and>
   empty (empty_mat) \<and>
   main ref_lib (\<lambda>f. empty_mat) [''colortransfer'', ''ref.png'', ''tgt.png''] [] =
     Exit 1 ''Image data missing'' \<and>
   \<not> empty \<lparr>rows = 1, cols = 1, depth = CV_8U, channels = 1, pixels = [[7]]\<rparr> \<and>
   channels \<lparr>rows = 1, cols = 1, depth = CV_8U, channels = 1, pixels = [[7]]\<rparr> < 3 \<and>
   main ref_lib (\<lambda>f. \<lparr>rows = 1, cols = 1, depth = CV_8U, channels = 1, pixels = [[7]]\<rparr>)
     [''colortransfer'', ''ref.png'', ''tgt.png''] [] =
     Exit 1 ''One of source/dest may not be a color image'' \<and>
   exit_status (main ref_lib (\<lambda>f. empty_mat) [''colortransfer''] []) = Some 1"
  using
    main_invalid_input [of "\<lambda>f. empty_mat" "[''colortransfer'', ''ref.png'', ''tgt.png'']"
      ref_lib "[]"]
    main_invalid_input [of
      "\<lambda>f. \<lparr>rows = 1, cols = 1, depth = CV_8U, channels = 1, pixels = [[7]]\<rparr>"
      "[''colortransfer'', ''ref.png'', ''tgt.png'']" ref_lib "[]"]
    main_invalid_input [of "\<lambda>f. empty_mat" "[''colortransfer'']" ref_lib "[]"]
  by (simp add: empty_def empty_mat_def)

section \<open>The session: properties\<close>






































end
